theory Spec2Isabelle
  imports Main
begin

text \<open>
  The repository is a middleware for the Hono web framework that answers requests for paths
  scanners probe with an empty response. It holds three versions of the one source file:
  \<^verbatim>\<open>src/index.ts\<close>, and the files kept as \<^verbatim>\<open>part_002\<close> and \<^verbatim>\<open>part_003\<close>. The three have
  the same function \<^verbatim>\<open>honeypot\<close> up to the handler it returns; they differ in the table
  \<^verbatim>\<open>ATTACK_PATTERNS\<close>, and the handler of \<^verbatim>\<open>part_003\<close> collapses the runs of slashes of the
  request path before it tests the path, which the other two do not. The files kept as
  \<^verbatim>\<open>part_001\<close> and \<^verbatim>\<open>part_000\<close> are the tests of the first and of the third version.
\<close>

section \<open>The regular-expression engine the middleware runs on\<close>

text \<open>
  The middleware keeps a list of JavaScript \<^verbatim>\<open>RegExp\<close> objects and calls
  \<^verbatim>\<open>pattern.test(path)\<close> and \<^verbatim>\<open>pattern.source\<close> on them. This section models the part of
  ECMAScript those two calls reach: the pattern syntax used by the built-in tables, the
  backtracking matcher with continuations (ECMA-262, 22.2.2), the flags \<^verbatim>\<open>g\<close>, \<^verbatim>\<open>i\<close> and
  \<^verbatim>\<open>y\<close>, and \<^verbatim>\<open>RegExpBuiltinExec\<close> with its \<^verbatim>\<open>lastIndex\<close> bookkeeping (22.2.7.2).

  A JavaScript string is a sequence of UTF-16 code units. The model uses \<^typ>\<open>string\<close>,
  whose characters have eight bits, and reads a character as the code unit of the same
  number: strings with a code unit above 255 are outside the model.
\<close>

datatype regex =
    Empty
  | Chr char
  | Digit
  | Bol
  | Eol
  | Seq regex regex
  | Alt regex regex
  | Group regex
  | Opt regex
  | Times regex nat

text \<open>
  \<open>Chr c\<close> is the pattern character \<open>c\<close> (written with a backslash in the pattern text
  when \<open>c\<close> is a syntax character or the slash), \<open>Digit\<close> is \<^verbatim>\<open>\d\<close>, \<open>Bol\<close> and \<open>Eol\<close>
  are \<^verbatim>\<open>^\<close> and \<^verbatim>\<open>$\<close> of a pattern without the \<^verbatim>\<open>m\<close> flag, \<open>Group r\<close> is \<^verbatim>\<open>(r)\<close>,
  \<open>Opt r\<close> is \<^verbatim>\<open>r?\<close> and \<open>Times r n\<close> is \<^verbatim>\<open>r{n}\<close>. The three functions below only
  shorten the table: a run of pattern characters, a sequence and an alternation.
\<close>

definition lit :: "string \<Rightarrow> regex" where
  "lit cs = foldr (\<lambda>c r. Seq (Chr c) r) cs Empty"

definition cat :: "regex list \<Rightarrow> regex" where
  "cat rs = foldr Seq rs Empty"

fun alt :: "regex list \<Rightarrow> regex" where
  "alt [] = Empty"
| "alt [r] = r"
| "alt (r # rs) = Alt r (alt rs)"

subsection \<open>Pattern text: what \<^verbatim>\<open>RegExp.prototype.source\<close> returns\<close>

definition backslash :: char where
  "backslash = CHR 0x5C"

definition syntax_characters :: "char list" where
  "syntax_characters = backslash # ''^$.*+?()[]{}|/''"

function decimal :: "nat \<Rightarrow> string" where
  "decimal n =
     (if n < 10 then [char_of (48 + n)]
      else decimal (n div 10) @ [char_of (48 + n mod 10)])"
  by pat_completeness auto
termination
  by (relation "measure id") auto

declare decimal.simps [simp del]

fun pattern_text :: "regex \<Rightarrow> string" where
  "pattern_text Empty = []"
| "pattern_text (Chr c) = (if c \<in> set syntax_characters then [backslash, c] else [c])"
| "pattern_text Digit = [backslash, CHR ''d'']"
| "pattern_text Bol = ''^''"
| "pattern_text Eol = ''$''"
| "pattern_text (Seq a b) = pattern_text a @ pattern_text b"
| "pattern_text (Alt a b) = pattern_text a @ ''|'' @ pattern_text b"
| "pattern_text (Group a) = ''('' @ pattern_text a @ '')''"
| "pattern_text (Opt a) = pattern_text a @ ''?''"
| "pattern_text (Times a n) = pattern_text a @ ''{'' @ decimal n @ ''}''"

subsection \<open>Matching\<close>

text \<open>
  \<open>Canonicalize\<close> is the case folding of a pattern without the \<^verbatim>\<open>u\<close> flag: the code unit
  is mapped to its upper-case form. Among the code units below 256 the letters \<^verbatim>\<open>a\<close> to
  \<^verbatim>\<open>z\<close> (97 to 122) and the Latin-1 letters 224 to 254 without the division sign 247 have
  an upper-case form below 256, 32 places lower; every other code unit is either unchanged
  or mapped above 255, where no other code unit of the model is mapped, so it is left as
  it is.
\<close>

definition has_upper :: "char \<Rightarrow> bool" where
  "has_upper c =
     (let n = (of_char c :: nat)
      in (97 \<le> n \<and> n \<le> 122) \<or> (224 \<le> n \<and> n \<le> 254 \<and> n \<noteq> 247))"

definition Canonicalize :: "bool \<Rightarrow> char \<Rightarrow> char" where
  "Canonicalize ignoreCase c =
     (if ignoreCase \<and> has_upper c then char_of ((of_char c :: nat) - 32) else c)"

definition is_digit :: "char \<Rightarrow> bool" where
  "is_digit c = (48 \<le> (of_char c :: nat) \<and> (of_char c :: nat) \<le> 57)"

text \<open>
  \<open>m ic r s i k\<close> runs the pattern \<open>r\<close> on the string \<open>s\<close> from index \<open>i\<close> and hands the
  index after the match to the continuation \<open>k\<close>; \<open>None\<close> is failure, which makes the
  caller try its next choice. The optional atom is the greedy \<^verbatim>\<open>{0,1}\<close> of the standard,
  which refuses an empty iteration. The standard folds the case of the code unit before it
  looks it up in the class \<^verbatim>\<open>\d\<close> as well; folding turns no code unit into a digit and
  changes no digit, so \<open>Digit\<close> looks the code unit up as it is.
\<close>

fun m :: "bool \<Rightarrow> regex \<Rightarrow> string \<Rightarrow> nat \<Rightarrow> (nat \<Rightarrow> nat option) \<Rightarrow> nat option" where
  "m ic Empty s i k = k i"
| "m ic (Chr c) s i k =
     (if i < length s \<and> Canonicalize ic (s ! i) = Canonicalize ic c then k (Suc i) else None)"
| "m ic Digit s i k = (if i < length s \<and> is_digit (s ! i) then k (Suc i) else None)"
| "m ic Bol s i k = (if i = 0 then k i else None)"
| "m ic Eol s i k = (if i = length s then k i else None)"
| "m ic (Seq a b) s i k = m ic a s i (\<lambda>j. m ic b s j k)"
| "m ic (Alt a b) s i k = (case m ic a s i k of Some e \<Rightarrow> Some e | None \<Rightarrow> m ic b s i k)"
| "m ic (Group a) s i k = m ic a s i k"
| "m ic (Opt a) s i k =
     (case m ic a s i (\<lambda>j. if j = i then None else k j) of
        Some e \<Rightarrow> Some e
      | None \<Rightarrow> k i)"
| "m ic (Times a n) s i k = (((\<lambda>c j. m ic a s j c) ^^ n) k) i"

subsection \<open>The \<^verbatim>\<open>RegExp\<close> object\<close>

text \<open>
  A \<^verbatim>\<open>RegExp\<close> object has its pattern text, its flags, its compiled matcher (the internal
  slot \<^verbatim>\<open>[[RegExpMatcher]]\<close>: from a string and a start index to the end index of the match
  found there, if any) and the mutable property \<^verbatim>\<open>lastIndex\<close>. Patterns that a caller
  supplies are arbitrary values of this record; the literals of the program are built by
  \<open>RegExp_literal\<close>. Every entry of a list is taken to be an object of its own.
\<close>

record RegExp =
  source :: string
  flags :: string
  matcher :: "string \<Rightarrow> nat \<Rightarrow> nat option"
  lastIndex :: nat

definition global :: "RegExp \<Rightarrow> bool" where
  "global r = (CHR ''g'' \<in> set (flags r))"

definition ignoreCase :: "RegExp \<Rightarrow> bool" where
  "ignoreCase r = (CHR ''i'' \<in> set (flags r))"

definition sticky :: "RegExp \<Rightarrow> bool" where
  "sticky r = (CHR ''y'' \<in> set (flags r))"

definition RegExp_literal :: "regex \<Rightarrow> string \<Rightarrow> RegExp" where
  "RegExp_literal body fl =
     \<lparr>source = pattern_text body,
      flags = fl,
      matcher = (\<lambda>s i. m (CHR ''i'' \<in> set fl) body s i Some),
      lastIndex = 0\<rparr>"

text \<open>
  The loop of \<^verbatim>\<open>RegExpBuiltinExec\<close>: from the start index on, try the matcher at each index up
  to the length of the string; a sticky pattern tries the start index only.
\<close>

function scan :: "(string \<Rightarrow> nat \<Rightarrow> nat option) \<Rightarrow> bool \<Rightarrow> string \<Rightarrow> nat \<Rightarrow> nat option" where
  "scan mt st s i =
     (if length s < i then None
      else case mt s i of
             Some e \<Rightarrow> Some e
           | None \<Rightarrow> if st then None else scan mt st s (Suc i))"
  by pat_completeness auto
termination
  by (relation "measure (\<lambda>(mt, st, s, i). Suc (length s) - i)") auto

declare scan.simps [simp del]

text \<open>
  \<^verbatim>\<open>RegExp.prototype.test\<close>: a pattern with the \<^verbatim>\<open>g\<close> or the \<^verbatim>\<open>y\<close> flag starts at its
  \<^verbatim>\<open>lastIndex\<close> and stores the end of the match there (0 after a failure); any other
  pattern starts at 0 and is left as it is. The result is the answer and the object after
  the call.
\<close>

definition RegExp_test :: "RegExp \<Rightarrow> string \<Rightarrow> bool \<times> RegExp" where
  "RegExp_test r s =
     (let stateful = (global r \<or> sticky r);
          start = (if stateful then lastIndex r else 0)
      in case scan (matcher r) (sticky r) s start of
           None \<Rightarrow> (False, if stateful then r\<lparr>lastIndex := 0\<rparr> else r)
         | Some e \<Rightarrow> (True, if stateful then r\<lparr>lastIndex := e\<rparr> else r))"

text \<open>
  \<^verbatim>\<open>patterns.some((pattern) => pattern.test(path))\<close>: the patterns are tested in order, the
  first one that answers true ends the loop, and the list is returned with the objects as
  the calls left them.
\<close>

fun some_test :: "RegExp list \<Rightarrow> string \<Rightarrow> bool \<times> RegExp list" where
  "some_test [] s = (False, [])"
| "some_test (p # ps) s =
     (case RegExp_test p s of
        (True, p') \<Rightarrow> (True, p' # ps)
      | (False, p') \<Rightarrow> (case some_test ps s of (b, ps') \<Rightarrow> (b, p' # ps')))"

text \<open>
  \<^verbatim>\<open>rawPath.replace(/\/+/g, '/')\<close>: every maximal run of slashes becomes one slash.
\<close>

function replace_slashes :: "string \<Rightarrow> string" where
  "replace_slashes [] = []"
| "replace_slashes (c # cs) =
     (if c = CHR ''/'' then CHR ''/'' # replace_slashes (dropWhile (\<lambda>x. x = CHR ''/'') cs)
      else c # replace_slashes cs)"
  by pat_completeness auto
termination
  by (relation "measure length") (auto simp: length_dropWhile_le less_Suc_eq_le)

section \<open>The middleware\<close>

subsection \<open>Options, request, response\<close>

text \<open>
  \<^verbatim>\<open>HoneypotOptions\<close>: four optional fields; \<open>None\<close> is a field left undefined. The type of
  \<^verbatim>\<open>status\<close> is the union \<^verbatim>\<open>410 | 404 | 403\<close>.
\<close>

datatype StatusCode = Status410 | Status404 | Status403

fun status_number :: "StatusCode \<Rightarrow> nat" where
  "status_number Status410 = 410"
| "status_number Status404 = 404"
| "status_number Status403 = 403"

record HoneypotOptions =
  patterns :: "RegExp list option"
  exclude :: "RegExp list option"
  log :: "bool option"
  status :: "StatusCode option"

text \<open>
  What the handler reads of the context: \<^verbatim>\<open>c.req.path\<close>, \<^verbatim>\<open>c.req.method\<close> (the field
  \<open>http_method\<close>) and \<^verbatim>\<open>c.req.header(name)\<close>. What it returns: \<^verbatim>\<open>next()\<close>, or \<^verbatim>\<open>c.body(null, status)\<close>, where
  the body \<open>None\<close> is \<^verbatim>\<open>null\<close>. What it prints: the template of the one
  \<^verbatim>\<open>console.log\<close> call, with its three holes (client address, method, path).
\<close>

record Request =
  path :: string
  http_method :: string
  header :: "string \<Rightarrow> string option"

datatype Result = Next | Body "string option" StatusCode

datatype LogLine = Blocked string string string

subsection \<open>Setting up: \<^verbatim>\<open>honeypot(options)\<close>\<close>

text \<open>
  The variables the returned handler closes over. The field \<open>rules\<close> is the variable
  \<^verbatim>\<open>patterns\<close> and \<open>blockStatus\<close> is the variable \<^verbatim>\<open>status\<close>: the option fields have taken
  those two names.
\<close>

record Closure =
  rules :: "RegExp list"
  shouldLog :: bool
  blockStatus :: StatusCode

text \<open>
  The body of \<^verbatim>\<open>honeypot\<close> before the handler (\<^verbatim>\<open>src/index.ts\<close>, lines 173 to 185) is
  the same text in the three files; only the table \<^verbatim>\<open>ATTACK_PATTERNS\<close> it reads differs, so
  the table is an argument here. The built-in table is joined with the caller's patterns
  first; the exclusions, when there are any, then filter the joined list by comparing
  \<^verbatim>\<open>source\<close>.
\<close>

definition effective_patterns :: "RegExp list \<Rightarrow> HoneypotOptions \<Rightarrow> RegExp list" where
  "effective_patterns builtins options =
     (let joined = builtins @ (case patterns options of None \<Rightarrow> [] | Some ps \<Rightarrow> ps)
      in case exclude options of
           None \<Rightarrow> joined
         | Some ex \<Rightarrow>
             if length ex \<noteq> 0
             then filter (\<lambda>pattern. \<not> list_ex (\<lambda>excludePattern.
                            source pattern = source excludePattern) ex) joined
             else joined)"

definition honeypot_with :: "RegExp list \<Rightarrow> HoneypotOptions \<Rightarrow> Closure" where
  "honeypot_with builtins options =
     \<lparr>rules = effective_patterns builtins options,
      shouldLog = (case log options of None \<Rightarrow> True | Some b \<Rightarrow> b),
      blockStatus = (case status options of None \<Rightarrow> Status410 | Some st \<Rightarrow> st)\<rparr>"

subsection \<open>The client address of the log line\<close>

text \<open>
  A header value is a string or undefined (\<open>None\<close>); it is truthy unless it is undefined
  or the empty string, and \<^verbatim>\<open>a || b\<close> is \<open>a\<close> when \<open>a\<close> is truthy and \<open>b\<close> otherwise.
  \<^verbatim>\<open>split(',')[0]\<close> is the text before the first comma, and \<^verbatim>\<open>trim()\<close> drops white space
  and line terminators (of the code units below 256: 9 to 13, 32 and 160) at both ends.
\<close>

definition truthy :: "string option \<Rightarrow> bool" where
  "truthy v = (case v of None \<Rightarrow> False | Some s \<Rightarrow> s \<noteq> [])"

definition or_else :: "string option \<Rightarrow> string option \<Rightarrow> string option" where
  "or_else a b = (if truthy a then a else b)"

definition is_space :: "char \<Rightarrow> bool" where
  "is_space c = ((of_char c :: nat) \<in> {9, 10, 11, 12, 13, 32, 160})"

definition trim :: "string \<Rightarrow> string" where
  "trim s = rev (dropWhile is_space (rev (dropWhile is_space s)))"

definition first_field :: "string \<Rightarrow> string" where
  "first_field s = takeWhile (\<lambda>c. c \<noteq> CHR '','') s"

definition client_ip :: "(string \<Rightarrow> string option) \<Rightarrow> string" where
  "client_ip hdr =
     (case or_else (hdr ''cf-connecting-ip'')
            (or_else (map_option (\<lambda>v. trim (first_field v)) (hdr ''x-forwarded-for''))
              (or_else (hdr ''x-real-ip'') (Some ''unknown''))) of
        None \<Rightarrow> []
      | Some ip \<Rightarrow> ip)"

subsection \<open>The handler\<close>

text \<open>
  The handler of \<^verbatim>\<open>src/index.ts\<close> (lines 187 to 206; \<^verbatim>\<open>part_002\<close> has the same handler,
  lines 213 to 232): it tests the request path as it comes. The result is what the handler
  returns, what it printed, and the closure after the call (the patterns keep their
  \<^verbatim>\<open>lastIndex\<close>).
\<close>

definition handler :: "Closure \<Rightarrow> Request \<Rightarrow> Result \<times> LogLine list \<times> Closure" where
  "handler cl c =
     (let p = path c
      in case some_test (rules cl) p of
           (True, ps) \<Rightarrow>
             (Body None (blockStatus cl),
              (if shouldLog cl then [Blocked (client_ip (header c)) (http_method c) p] else []),
              cl\<lparr>rules := ps\<rparr>)
         | (False, ps) \<Rightarrow> (Next, [], cl\<lparr>rules := ps\<rparr>))"

text \<open>
  The handler of \<^verbatim>\<open>part_003\<close> (lines 257 to 278): it collapses the runs of slashes of the
  request path first, and tests and prints the collapsed path.
\<close>

definition handler_part_003 :: "Closure \<Rightarrow> Request \<Rightarrow> Result \<times> LogLine list \<times> Closure" where
  "handler_part_003 cl c =
     (let rawPath = path c;
          p = replace_slashes rawPath
      in case some_test (rules cl) p of
           (True, ps) \<Rightarrow>
             (Body None (blockStatus cl),
              (if shouldLog cl then [Blocked (client_ip (header c)) (http_method c) p] else []),
              cl\<lparr>rules := ps\<rparr>)
         | (False, ps) \<Rightarrow> (Next, [], cl\<lparr>rules := ps\<rparr>))"

subsection \<open>The built-in tables\<close>

text \<open>
  The three tables, entry by entry in the order of the files; the comment under an entry is
  the literal of the file. \<open>lit\<close> takes the characters themselves: the literal writes the
  slash and the dot of a pattern with a backslash.

  The table of \<^verbatim>\<open>src/index.ts\<close> (lines 19 to 91).
\<close>

definition ATTACK_PATTERNS :: "RegExp list" where
  \<open>ATTACK_PATTERNS =
    [RegExp_literal (cat [lit ''.php'', Eol]) ''i'',
       \<comment> \<open>/\.php$/i\<close>
     RegExp_literal (lit ''/config.php'') ''i'',
       \<comment> \<open>/\/config\.php/i\<close>
     RegExp_literal (lit ''/phpinfo'') ''i'',
       \<comment> \<open>/\/phpinfo/i\<close>
     RegExp_literal (lit ''/eval-stdin.php'') ''i'',
       \<comment> \<open>/\/eval-stdin\.php/i\<close>
     RegExp_literal (lit ''/xmlrpc.php'') ''i'',
       \<comment> \<open>/\/xmlrpc\.php/i\<close>
     RegExp_literal (cat [Bol, lit ''/wp'', Eol]) ''i'',
       \<comment> \<open>/^\/wp$/i\<close>
     RegExp_literal (cat [Bol, lit ''/wp-'']) ''i'',
       \<comment> \<open>/^\/wp-/i\<close>
     RegExp_literal (cat [Bol, lit ''/wordpress'']) ''i'',
       \<comment> \<open>/^\/wordpress/i\<close>
     RegExp_literal (cat [Bol, lit ''/admin'', Opt (Group (lit ''.php'')), Eol]) ''i'',
       \<comment> \<open>/^\/admin(\.php)?$/i\<close>
     RegExp_literal (cat [Bol, lit ''/administrator'']) ''i'',
       \<comment> \<open>/^\/administrator/i\<close>
     RegExp_literal (cat [Bol, lit ''/phpmyadmin'']) ''i'',
       \<comment> \<open>/^\/phpmyadmin/i\<close>
     RegExp_literal (cat [Bol, lit ''/cpanel'']) ''i'',
       \<comment> \<open>/^\/cpanel/i\<close>
     RegExp_literal (cat [Bol, lit ''/whm'']) ''i'',
       \<comment> \<open>/^\/whm/i\<close>
     RegExp_literal (cat [Bol, lit ''/cgi-bin'']) ''i'',
       \<comment> \<open>/^\/cgi-bin/i\<close>
     RegExp_literal (cat [Bol, lit ''/typo3'']) ''i'',
       \<comment> \<open>/^\/typo3/i\<close>
     RegExp_literal (cat [Bol, lit ''/joomla'']) ''i'',
       \<comment> \<open>/^\/joomla/i\<close>
     RegExp_literal (cat [Bol, lit ''/drupal'']) ''i'',
       \<comment> \<open>/^\/drupal/i\<close>
     RegExp_literal (cat [Bol, lit ''/magento'']) ''i'',
       \<comment> \<open>/^\/magento/i\<close>
     RegExp_literal (lit ''/.env'') ''i'',
       \<comment> \<open>/\/\.env/i\<close>
     RegExp_literal (lit ''/.git'') ''i'',
       \<comment> \<open>/\/\.git/i\<close>
     RegExp_literal (cat [lit ''/.sql'', Eol]) ''i'',
       \<comment> \<open>/\/\.sql$/i\<close>
     RegExp_literal (lit ''/.well-known/security.txt'') ''i'',
       \<comment> \<open>/\/\.well-known\/security\.txt/i\<close>
     RegExp_literal (cat [lit ''/'', Group (alt [lit ''vendor'', lit ''node_modules'']), lit
         ''/'']) ''i'',
       \<comment> \<open>/\/(vendor|node_modules)\//i\<close>
     RegExp_literal (cat [Bol, lit ''/backup'']) ''i'',
       \<comment> \<open>/^\/backup/i\<close>
     RegExp_literal (cat [Bol, lit ''/bk'', Eol]) ''i'',
       \<comment> \<open>/^\/bk$/i\<close>
     RegExp_literal (cat [Bol, lit ''/bak'', Eol]) ''i'',
       \<comment> \<open>/^\/bak$/i\<close>
     RegExp_literal (cat [Bol, lit ''/bac'', Eol]) ''i'',
       \<comment> \<open>/^\/bac$/i\<close>
     RegExp_literal (cat [Bol, lit ''/dump'']) ''i'',
       \<comment> \<open>/^\/dump/i\<close>
     RegExp_literal (cat [Bol, lit ''/db_'']) ''i'',
       \<comment> \<open>/^\/db_/i\<close>
     RegExp_literal (cat [Bol, lit ''/sql'']) ''i'',
       \<comment> \<open>/^\/sql/i\<close>
     RegExp_literal (cat [Bol, lit ''/shell'']) ''i'',
       \<comment> \<open>/^\/shell/i\<close>
     RegExp_literal (cat [Bol, lit ''/login'', Eol]) ''i'',
       \<comment> \<open>/^\/login$/i\<close>
     RegExp_literal (cat [Bol, lit ''/signin'', Eol]) ''i'',
       \<comment> \<open>/^\/signin$/i\<close>
     RegExp_literal (cat [Bol, lit ''/register'', Eol]) ''i'',
       \<comment> \<open>/^\/register$/i\<close>
     RegExp_literal (cat [Bol, lit ''/signup'', Eol]) ''i'',
       \<comment> \<open>/^\/signup$/i\<close>
     RegExp_literal (cat [Bol, lit ''/dashboard'', Eol]) ''i'',
       \<comment> \<open>/^\/dashboard$/i\<close>
     RegExp_literal (cat [Bol, lit ''/user/'', Group (alt [lit ''login'', lit ''signin'', lit
         ''register'', lit ''signup''])]) ''i'',
       \<comment> \<open>/^\/user\/(login|signin|register|signup)/i\<close>
     RegExp_literal (cat [Bol, lit ''/old'', Eol]) ''i'',
       \<comment> \<open>/^\/old$/i\<close>
     RegExp_literal (cat [Bol, lit ''/new'', Eol]) ''i'',
       \<comment> \<open>/^\/new$/i\<close>
     RegExp_literal (cat [Bol, lit ''/test'', Eol]) ''i'',
       \<comment> \<open>/^\/test$/i\<close>
     RegExp_literal (cat [Bol, lit ''/demo'', Eol]) ''i'',
       \<comment> \<open>/^\/demo$/i\<close>
     RegExp_literal (cat [Bol, lit ''/www'', Eol]) ''i'',
       \<comment> \<open>/^\/www$/i\<close>
     RegExp_literal (cat [Bol, lit ''/main'', Eol]) ''i'',
       \<comment> \<open>/^\/main$/i\<close>
     RegExp_literal (cat [Bol, lit ''/site'', Eol]) ''i'',
       \<comment> \<open>/^\/site$/i\<close>
     RegExp_literal (cat [Bol, lit ''/shop'', Eol]) ''i'',
       \<comment> \<open>/^\/shop$/i\<close>
     RegExp_literal (cat [Bol, lit ''/blog'', Eol]) ''i'',
       \<comment> \<open>/^\/blog$/i\<close>
     RegExp_literal (cat [Bol, lit ''/bc'', Eol]) ''i'',
       \<comment> \<open>/^\/bc$/i\<close>
     RegExp_literal (cat [Bol, lit ''/sitio'', Eol]) ''i'',
       \<comment> \<open>/^\/sitio$/i\<close>
     RegExp_literal (cat [Bol, lit ''/sito'', Eol]) ''i'',
       \<comment> \<open>/^\/sito$/i\<close>
     RegExp_literal (cat [Bol, lit ''/oldsite'', Eol]) ''i'',
       \<comment> \<open>/^\/oldsite$/i\<close>
     RegExp_literal (cat [Bol, lit ''/old-site'', Eol]) ''i'',
       \<comment> \<open>/^\/old-site$/i\<close>
     RegExp_literal (cat [Bol, lit ''/'', Times Digit 4, Eol]) ''i'']
       \<comment> \<open>/^\/\d{4}$/i\<close>\<close>

text \<open>The table of \<^verbatim>\<open>part_002\<close> (lines 19 to 117).\<close>

definition ATTACK_PATTERNS_part_002 :: "RegExp list" where
  \<open>ATTACK_PATTERNS_part_002 =
    [RegExp_literal (cat [lit ''.php'', Eol]) ''i'',
       \<comment> \<open>/\.php$/i\<close>
     RegExp_literal (lit ''/config.php'') ''i'',
       \<comment> \<open>/\/config\.php/i\<close>
     RegExp_literal (lit ''/phpinfo'') ''i'',
       \<comment> \<open>/\/phpinfo/i\<close>
     RegExp_literal (lit ''/eval-stdin.php'') ''i'',
       \<comment> \<open>/\/eval-stdin\.php/i\<close>
     RegExp_literal (lit ''/xmlrpc.php'') ''i'',
       \<comment> \<open>/\/xmlrpc\.php/i\<close>
     RegExp_literal (cat [Bol, lit ''/wp'', Eol]) ''i'',
       \<comment> \<open>/^\/wp$/i\<close>
     RegExp_literal (cat [Bol, lit ''/wp-'']) ''i'',
       \<comment> \<open>/^\/wp-/i\<close>
     RegExp_literal (cat [Bol, lit ''/wordpress'']) ''i'',
       \<comment> \<open>/^\/wordpress/i\<close>
     RegExp_literal (cat [Bol, lit ''/admin'', Opt (Group (lit ''.php'')), Eol]) ''i'',
       \<comment> \<open>/^\/admin(\.php)?$/i\<close>
     RegExp_literal (cat [Bol, lit ''/administrator'']) ''i'',
       \<comment> \<open>/^\/administrator/i\<close>
     RegExp_literal (cat [Bol, lit ''/phpmyadmin'']) ''i'',
       \<comment> \<open>/^\/phpmyadmin/i\<close>
     RegExp_literal (cat [Bol, lit ''/cpanel'']) ''i'',
       \<comment> \<open>/^\/cpanel/i\<close>
     RegExp_literal (cat [Bol, lit ''/whm'']) ''i'',
       \<comment> \<open>/^\/whm/i\<close>
     RegExp_literal (cat [Bol, lit ''/cgi-bin'']) ''i'',
       \<comment> \<open>/^\/cgi-bin/i\<close>
     RegExp_literal (cat [Bol, lit ''/typo3'']) ''i'',
       \<comment> \<open>/^\/typo3/i\<close>
     RegExp_literal (cat [Bol, lit ''/joomla'']) ''i'',
       \<comment> \<open>/^\/joomla/i\<close>
     RegExp_literal (cat [Bol, lit ''/drupal'']) ''i'',
       \<comment> \<open>/^\/drupal/i\<close>
     RegExp_literal (cat [Bol, lit ''/magento'']) ''i'',
       \<comment> \<open>/^\/magento/i\<close>
     RegExp_literal (lit ''/.env'') ''i'',
       \<comment> \<open>/\/\.env/i\<close>
     RegExp_literal (lit ''/.git'') ''i'',
       \<comment> \<open>/\/\.git/i\<close>
     RegExp_literal (cat [lit ''/.sql'', Eol]) ''i'',
       \<comment> \<open>/\/\.sql$/i\<close>
     RegExp_literal (lit ''/.well-known/security.txt'') ''i'',
       \<comment> \<open>/\/\.well-known\/security\.txt/i\<close>
     RegExp_literal (cat [lit ''/'', Group (alt [lit ''vendor'', lit ''node_modules'']), lit
         ''/'']) ''i'',
       \<comment> \<open>/\/(vendor|node_modules)\//i\<close>
     RegExp_literal (cat [lit ''.'', Group (alt [lit ''bak'', lit ''old'', lit ''backup'', lit
         ''orig'', lit ''save'', lit ''swp'']), Eol]) ''i'',
       \<comment> \<open>/\.(bak|old|backup|orig|save|swp)$/i\<close>
     RegExp_literal (cat [Bol, lit ''/config.'', Group (alt [lit ''js'', lit ''json'', lit
         ''yml'', lit ''yaml'', lit ''xml'', lit ''ini'', lit ''conf'']), Eol]) ''i'',
       \<comment> \<open>/^\/config\.(js|json|yml|yaml|xml|ini|conf)$/i\<close>
     RegExp_literal (cat [Bol, lit ''/settings.'', Group (alt [lit ''js'', lit ''json'', lit
         ''yml'', lit ''yaml'', lit ''xml'']), Eol]) ''i'',
       \<comment> \<open>/^\/settings\.(js|json|yml|yaml|xml)$/i\<close>
     RegExp_literal (cat [Bol, lit ''/credentials.'', Group (alt [lit ''js'', lit ''json'', lit
         ''yml'', lit ''yaml'']), Eol]) ''i'',
       \<comment> \<open>/^\/credentials\.(js|json|yml|yaml)$/i\<close>
     RegExp_literal (cat [Bol, lit ''/secrets.'', Group (alt [lit ''js'', lit ''json'', lit
         ''yml'', lit ''yaml'', lit ''env'']), Eol]) ''i'',
       \<comment> \<open>/^\/secrets\.(js|json|yml|yaml|env)$/i\<close>
     RegExp_literal (cat [Bol, lit ''/appsettings.'', Group (alt [lit ''json'', lit ''yml'', lit
         ''yaml'']), Eol]) ''i'',
       \<comment> \<open>/^\/appsettings\.(json|yml|yaml)$/i\<close>
     RegExp_literal (cat [Bol, lit ''/application.'', Group (alt [lit ''yml'', lit ''yaml'', lit
         ''xml'', lit ''properties'']), Eol]) ''i'',
       \<comment> \<open>/^\/application\.(yml|yaml|xml|properties)$/i\<close>
     RegExp_literal (cat [Bol, lit ''/env.js'', Eol]) ''i'',
       \<comment> \<open>/^\/env\.js$/i\<close>
     RegExp_literal (cat [Bol, lit ''/server-'', Group (alt [lit ''status'', lit ''info'']),
         Eol]) ''i'',
       \<comment> \<open>/^\/server-(status|info)$/i\<close>
     RegExp_literal (cat [Bol, lit ''/info'', Eol]) ''i'',
       \<comment> \<open>/^\/info$/i\<close>
     RegExp_literal (cat [Bol, lit ''/swagger.'', Group (alt [lit ''json'', lit ''yml'', lit
         ''yaml'']), Eol]) ''i'',
       \<comment> \<open>/^\/swagger\.(json|yml|yaml)$/i\<close>
     RegExp_literal (cat [Bol, lit ''/api/swagger.'', Group (alt [lit ''json'', lit ''yml'', lit
         ''yaml'']), Eol]) ''i'',
       \<comment> \<open>/^\/api\/swagger\.(json|yml|yaml)$/i\<close>
     RegExp_literal (cat [Bol, lit ''/_env'']) ''i'',
       \<comment> \<open>/^\/_env/i\<close>
     RegExp_literal (cat [Bol, lit ''/config/'']) ''i'',
       \<comment> \<open>/^\/config\//i\<close>
     RegExp_literal (cat [Bol, lit ''/backup'']) ''i'',
       \<comment> \<open>/^\/backup/i\<close>
     RegExp_literal (cat [Bol, lit ''/bk'', Eol]) ''i'',
       \<comment> \<open>/^\/bk$/i\<close>
     RegExp_literal (cat [Bol, lit ''/bak'', Eol]) ''i'',
       \<comment> \<open>/^\/bak$/i\<close>
     RegExp_literal (cat [Bol, lit ''/bac'', Eol]) ''i'',
       \<comment> \<open>/^\/bac$/i\<close>
     RegExp_literal (cat [Bol, lit ''/dump'']) ''i'',
       \<comment> \<open>/^\/dump/i\<close>
     RegExp_literal (cat [Bol, lit ''/db_'']) ''i'',
       \<comment> \<open>/^\/db_/i\<close>
     RegExp_literal (cat [Bol, lit ''/sql'']) ''i'',
       \<comment> \<open>/^\/sql/i\<close>
     RegExp_literal (cat [Bol, lit ''/shell'']) ''i'',
       \<comment> \<open>/^\/shell/i\<close>
     RegExp_literal (cat [Bol, lit ''/login'', Eol]) ''i'',
       \<comment> \<open>/^\/login$/i\<close>
     RegExp_literal (cat [Bol, lit ''/signin'', Eol]) ''i'',
       \<comment> \<open>/^\/signin$/i\<close>
     RegExp_literal (cat [Bol, lit ''/register'', Eol]) ''i'',
       \<comment> \<open>/^\/register$/i\<close>
     RegExp_literal (cat [Bol, lit ''/signup'', Eol]) ''i'',
       \<comment> \<open>/^\/signup$/i\<close>
     RegExp_literal (cat [Bol, lit ''/dashboard'', Eol]) ''i'',
       \<comment> \<open>/^\/dashboard$/i\<close>
     RegExp_literal (cat [Bol, lit ''/user/'', Group (alt [lit ''login'', lit ''signin'', lit
         ''register'', lit ''signup''])]) ''i'',
       \<comment> \<open>/^\/user\/(login|signin|register|signup)/i\<close>
     RegExp_literal (cat [Bol, lit ''/old'', Eol]) ''i'',
       \<comment> \<open>/^\/old$/i\<close>
     RegExp_literal (cat [Bol, lit ''/new'', Eol]) ''i'',
       \<comment> \<open>/^\/new$/i\<close>
     RegExp_literal (cat [Bol, lit ''/test'', Eol]) ''i'',
       \<comment> \<open>/^\/test$/i\<close>
     RegExp_literal (cat [Bol, lit ''/demo'', Eol]) ''i'',
       \<comment> \<open>/^\/demo$/i\<close>
     RegExp_literal (cat [Bol, lit ''/www'', Eol]) ''i'',
       \<comment> \<open>/^\/www$/i\<close>
     RegExp_literal (cat [Bol, lit ''/main'', Eol]) ''i'',
       \<comment> \<open>/^\/main$/i\<close>
     RegExp_literal (cat [Bol, lit ''/site'', Eol]) ''i'',
       \<comment> \<open>/^\/site$/i\<close>
     RegExp_literal (cat [Bol, lit ''/shop'', Eol]) ''i'',
       \<comment> \<open>/^\/shop$/i\<close>
     RegExp_literal (cat [Bol, lit ''/blog'', Eol]) ''i'',
       \<comment> \<open>/^\/blog$/i\<close>
     RegExp_literal (cat [Bol, lit ''/bc'', Eol]) ''i'',
       \<comment> \<open>/^\/bc$/i\<close>
     RegExp_literal (cat [Bol, lit ''/sitio'', Eol]) ''i'',
       \<comment> \<open>/^\/sitio$/i\<close>
     RegExp_literal (cat [Bol, lit ''/sito'', Eol]) ''i'',
       \<comment> \<open>/^\/sito$/i\<close>
     RegExp_literal (cat [Bol, lit ''/oldsite'', Eol]) ''i'',
       \<comment> \<open>/^\/oldsite$/i\<close>
     RegExp_literal (cat [Bol, lit ''/old-site'', Eol]) ''i'',
       \<comment> \<open>/^\/old-site$/i\<close>
     RegExp_literal (cat [Bol, lit ''/'', Times Digit 4, Eol]) ''i'']
       \<comment> \<open>/^\/\d{4}$/i\<close>\<close>

text \<open>The table of \<^verbatim>\<open>part_003\<close> (lines 21 to 161).\<close>

definition ATTACK_PATTERNS_part_003 :: "RegExp list" where
  \<open>ATTACK_PATTERNS_part_003 =
    [RegExp_literal (cat [lit ''.php'', Eol]) ''i'',
       \<comment> \<open>/\.php$/i\<close>
     RegExp_literal (lit ''/config.php'') ''i'',
       \<comment> \<open>/\/config\.php/i\<close>
     RegExp_literal (lit ''/phpinfo'') ''i'',
       \<comment> \<open>/\/phpinfo/i\<close>
     RegExp_literal (lit ''/eval-stdin.php'') ''i'',
       \<comment> \<open>/\/eval-stdin\.php/i\<close>
     RegExp_literal (lit ''/xmlrpc.php'') ''i'',
       \<comment> \<open>/\/xmlrpc\.php/i\<close>
     RegExp_literal (lit ''/ALFA_DATA'') ''i'',
       \<comment> \<open>/\/ALFA_DATA/i\<close>
     RegExp_literal (lit ''/c99.php'') ''i'',
       \<comment> \<open>/\/c99\.php/i\<close>
     RegExp_literal (lit ''/r57.php'') ''i'',
       \<comment> \<open>/\/r57\.php/i\<close>
     RegExp_literal (lit ''/shell.php'') ''i'',
       \<comment> \<open>/\/shell\.php/i\<close>
     RegExp_literal (lit ''/webshell'') ''i'',
       \<comment> \<open>/\/webshell/i\<close>
     RegExp_literal (cat [Bol, lit ''/wp'', Eol]) ''i'',
       \<comment> \<open>/^\/wp$/i\<close>
     RegExp_literal (cat [Bol, lit ''/wp-'']) ''i'',
       \<comment> \<open>/^\/wp-/i\<close>
     RegExp_literal (cat [Bol, lit ''/wordpress'']) ''i'',
       \<comment> \<open>/^\/wordpress/i\<close>
     RegExp_literal (lit ''/wp-includes/'') ''i'',
       \<comment> \<open>/\/wp-includes\//i\<close>
     RegExp_literal (lit ''/wp-content/'') ''i'',
       \<comment> \<open>/\/wp-content\//i\<close>
     RegExp_literal (lit ''/wp-admin'') ''i'',
       \<comment> \<open>/\/wp-admin/i\<close>
     RegExp_literal (cat [lit ''wlwmanifest.xml'', Eol]) ''i'',
       \<comment> \<open>/wlwmanifest\.xml$/i\<close>
     RegExp_literal (cat [Bol, lit ''/upload'', Opt (Chr CHR ''s''), Eol]) ''i'',
       \<comment> \<open>/^\/uploads?$/i\<close>
     RegExp_literal (cat [Bol, lit ''/images'', Eol]) ''i'',
       \<comment> \<open>/^\/images$/i\<close>
     RegExp_literal (cat [Bol, lit ''/assets'', Eol]) ''i'',
       \<comment> \<open>/^\/assets$/i\<close>
     RegExp_literal (cat [Bol, lit ''/files'', Eol]) ''i'',
       \<comment> \<open>/^\/files$/i\<close>
     RegExp_literal (cat [Bol, lit ''/media'', Eol]) ''i'',
       \<comment> \<open>/^\/media$/i\<close>
     RegExp_literal (cat [Bol, lit ''/public'', Eol]) ''i'',
       \<comment> \<open>/^\/public$/i\<close>
     RegExp_literal (cat [lit ''/admin/'', Group (alt [cat [lit ''upload'', Opt (Chr CHR
         ''s'')], lit ''images'', lit ''editor'', lit ''fckeditor'', lit ''controller''])])
         ''i'',
       \<comment> \<open>/\/admin\/(uploads?|images|editor|fckeditor|controller)/i\<close>
     RegExp_literal (cat [Bol, lit ''/modules'', Eol]) ''i'',
       \<comment> \<open>/^\/modules$/i\<close>
     RegExp_literal (cat [Bol, lit ''/plugins'', Eol]) ''i'',
       \<comment> \<open>/^\/plugins$/i\<close>
     RegExp_literal (cat [Bol, lit ''/components'', Eol]) ''i'',
       \<comment> \<open>/^\/components$/i\<close>
     RegExp_literal (cat [Bol, lit ''/system'', Eol]) ''i'',
       \<comment> \<open>/^\/system$/i\<close>
     RegExp_literal (cat [Bol, lit ''/template'', Eol]) ''i'',
       \<comment> \<open>/^\/template$/i\<close>
     RegExp_literal (cat [Bol, lit ''/include'', Opt (Chr CHR ''s''), Eol]) ''i'',
       \<comment> \<open>/^\/includes?$/i\<close>
     RegExp_literal (cat [Bol, lit ''/vendor'', Eol]) ''i'',
       \<comment> \<open>/^\/vendor$/i\<close>
     RegExp_literal (cat [Bol, lit ''/local'', Eol]) ''i'',
       \<comment> \<open>/^\/local$/i\<close>
     RegExp_literal (cat [Bol, lit ''/php'', Eol]) ''i'',
       \<comment> \<open>/^\/php$/i\<close>
     RegExp_literal (lit ''/fckeditor/editor/filemanager'') ''i'',
       \<comment> \<open>/\/fckeditor\/editor\/filemanager/i\<close>
     RegExp_literal (lit ''/sites/default/files'') ''i'',
       \<comment> \<open>/\/sites\/default\/files/i\<close>
     RegExp_literal (lit ''/images/stories'') ''i'',
       \<comment> \<open>/\/images\/stories/i\<close>
     RegExp_literal (lit ''/modules/mod_simplefileupload'') ''i'',
       \<comment> \<open>/\/modules\/mod_simplefileupload/i\<close>
     RegExp_literal (lit ''/controller/extension'') ''i'',
       \<comment> \<open>/\/controller\/extension/i\<close>
     RegExp_literal (cat [Bol, lit ''/admin'', Opt (Group (lit ''.php'')), Eol]) ''i'',
       \<comment> \<open>/^\/admin(\.php)?$/i\<close>
     RegExp_literal (cat [Bol, lit ''/administrator'']) ''i'',
       \<comment> \<open>/^\/administrator/i\<close>
     RegExp_literal (cat [Bol, lit ''/phpmyadmin'']) ''i'',
       \<comment> \<open>/^\/phpmyadmin/i\<close>
     RegExp_literal (cat [Bol, lit ''/cpanel'']) ''i'',
       \<comment> \<open>/^\/cpanel/i\<close>
     RegExp_literal (cat [Bol, lit ''/whm'']) ''i'',
       \<comment> \<open>/^\/whm/i\<close>
     RegExp_literal (cat [Bol, lit ''/cgi-bin'']) ''i'',
       \<comment> \<open>/^\/cgi-bin/i\<close>
     RegExp_literal (cat [Bol, lit ''/typo3'']) ''i'',
       \<comment> \<open>/^\/typo3/i\<close>
     RegExp_literal (cat [Bol, lit ''/joomla'']) ''i'',
       \<comment> \<open>/^\/joomla/i\<close>
     RegExp_literal (cat [Bol, lit ''/drupal'']) ''i'',
       \<comment> \<open>/^\/drupal/i\<close>
     RegExp_literal (cat [Bol, lit ''/magento'']) ''i'',
       \<comment> \<open>/^\/magento/i\<close>
     RegExp_literal (lit ''/.env'') ''i'',
       \<comment> \<open>/\/\.env/i\<close>
     RegExp_literal (lit ''/.git'') ''i'',
       \<comment> \<open>/\/\.git/i\<close>
     RegExp_literal (cat [lit ''/.sql'', Eol]) ''i'',
       \<comment> \<open>/\/\.sql$/i\<close>
     RegExp_literal (lit ''/.well-known/security.txt'') ''i'',
       \<comment> \<open>/\/\.well-known\/security\.txt/i\<close>
     RegExp_literal (cat [lit ''/'', Group (alt [lit ''vendor'', lit ''node_modules'']), lit
         ''/'']) ''i'',
       \<comment> \<open>/\/(vendor|node_modules)\//i\<close>
     RegExp_literal (cat [lit ''.'', Group (alt [lit ''bak'', lit ''old'', lit ''backup'', lit
         ''orig'', lit ''save'', lit ''swp'']), Eol]) ''i'',
       \<comment> \<open>/\.(bak|old|backup|orig|save|swp)$/i\<close>
     RegExp_literal (cat [Bol, lit ''/config.'', Group (alt [lit ''js'', lit ''json'', lit
         ''yml'', lit ''yaml'', lit ''xml'', lit ''ini'', lit ''conf'']), Eol]) ''i'',
       \<comment> \<open>/^\/config\.(js|json|yml|yaml|xml|ini|conf)$/i\<close>
     RegExp_literal (cat [Bol, lit ''/settings.'', Group (alt [lit ''js'', lit ''json'', lit
         ''yml'', lit ''yaml'', lit ''xml'']), Eol]) ''i'',
       \<comment> \<open>/^\/settings\.(js|json|yml|yaml|xml)$/i\<close>
     RegExp_literal (cat [Bol, lit ''/credentials.'', Group (alt [lit ''js'', lit ''json'', lit
         ''yml'', lit ''yaml'']), Eol]) ''i'',
       \<comment> \<open>/^\/credentials\.(js|json|yml|yaml)$/i\<close>
     RegExp_literal (cat [Bol, lit ''/secrets.'', Group (alt [lit ''js'', lit ''json'', lit
         ''yml'', lit ''yaml'', lit ''env'']), Eol]) ''i'',
       \<comment> \<open>/^\/secrets\.(js|json|yml|yaml|env)$/i\<close>
     RegExp_literal (cat [Bol, lit ''/appsettings.'', Group (alt [lit ''json'', lit ''yml'', lit
         ''yaml'']), Eol]) ''i'',
       \<comment> \<open>/^\/appsettings\.(json|yml|yaml)$/i\<close>
     RegExp_literal (cat [Bol, lit ''/application.'', Group (alt [lit ''yml'', lit ''yaml'', lit
         ''xml'', lit ''properties'']), Eol]) ''i'',
       \<comment> \<open>/^\/application\.(yml|yaml|xml|properties)$/i\<close>
     RegExp_literal (cat [Bol, lit ''/env.js'', Eol]) ''i'',
       \<comment> \<open>/^\/env\.js$/i\<close>
     RegExp_literal (cat [Bol, lit ''/server-'', Group (alt [lit ''status'', lit ''info'']),
         Eol]) ''i'',
       \<comment> \<open>/^\/server-(status|info)$/i\<close>
     RegExp_literal (cat [Bol, lit ''/info'', Eol]) ''i'',
       \<comment> \<open>/^\/info$/i\<close>
     RegExp_literal (cat [Bol, lit ''/swagger.'', Group (alt [lit ''json'', lit ''yml'', lit
         ''yaml'']), Eol]) ''i'',
       \<comment> \<open>/^\/swagger\.(json|yml|yaml)$/i\<close>
     RegExp_literal (cat [Bol, lit ''/api/swagger.'', Group (alt [lit ''json'', lit ''yml'', lit
         ''yaml'']), Eol]) ''i'',
       \<comment> \<open>/^\/api\/swagger\.(json|yml|yaml)$/i\<close>
     RegExp_literal (cat [Bol, lit ''/_env'']) ''i'',
       \<comment> \<open>/^\/_env/i\<close>
     RegExp_literal (cat [Bol, lit ''/config/'']) ''i'',
       \<comment> \<open>/^\/config\//i\<close>
     RegExp_literal (cat [Bol, lit ''/backup'']) ''i'',
       \<comment> \<open>/^\/backup/i\<close>
     RegExp_literal (cat [Bol, lit ''/bk'', Eol]) ''i'',
       \<comment> \<open>/^\/bk$/i\<close>
     RegExp_literal (cat [Bol, lit ''/bak'', Eol]) ''i'',
       \<comment> \<open>/^\/bak$/i\<close>
     RegExp_literal (cat [Bol, lit ''/bac'', Eol]) ''i'',
       \<comment> \<open>/^\/bac$/i\<close>
     RegExp_literal (cat [Bol, lit ''/dump'']) ''i'',
       \<comment> \<open>/^\/dump/i\<close>
     RegExp_literal (cat [Bol, lit ''/db_'']) ''i'',
       \<comment> \<open>/^\/db_/i\<close>
     RegExp_literal (cat [Bol, lit ''/sql'']) ''i'',
       \<comment> \<open>/^\/sql/i\<close>
     RegExp_literal (cat [Bol, lit ''/shell'']) ''i'',
       \<comment> \<open>/^\/shell/i\<close>
     RegExp_literal (cat [Bol, lit ''/login'', Eol]) ''i'',
       \<comment> \<open>/^\/login$/i\<close>
     RegExp_literal (cat [Bol, lit ''/signin'', Eol]) ''i'',
       \<comment> \<open>/^\/signin$/i\<close>
     RegExp_literal (cat [Bol, lit ''/register'', Eol]) ''i'',
       \<comment> \<open>/^\/register$/i\<close>
     RegExp_literal (cat [Bol, lit ''/signup'', Eol]) ''i'',
       \<comment> \<open>/^\/signup$/i\<close>
     RegExp_literal (cat [Bol, lit ''/dashboard'', Eol]) ''i'',
       \<comment> \<open>/^\/dashboard$/i\<close>
     RegExp_literal (cat [Bol, lit ''/user/'', Group (alt [lit ''login'', lit ''signin'', lit
         ''register'', lit ''signup''])]) ''i'',
       \<comment> \<open>/^\/user\/(login|signin|register|signup)/i\<close>
     RegExp_literal (cat [Bol, lit ''/old'', Eol]) ''i'',
       \<comment> \<open>/^\/old$/i\<close>
     RegExp_literal (cat [Bol, lit ''/new'', Eol]) ''i'',
       \<comment> \<open>/^\/new$/i\<close>
     RegExp_literal (cat [Bol, lit ''/test'', Eol]) ''i'',
       \<comment> \<open>/^\/test$/i\<close>
     RegExp_literal (cat [Bol, lit ''/demo'', Eol]) ''i'',
       \<comment> \<open>/^\/demo$/i\<close>
     RegExp_literal (cat [Bol, lit ''/www'', Eol]) ''i'',
       \<comment> \<open>/^\/www$/i\<close>
     RegExp_literal (cat [Bol, lit ''/main'', Eol]) ''i'',
       \<comment> \<open>/^\/main$/i\<close>
     RegExp_literal (cat [Bol, lit ''/site'', Eol]) ''i'',
       \<comment> \<open>/^\/site$/i\<close>
     RegExp_literal (cat [Bol, lit ''/shop'', Eol]) ''i'',
       \<comment> \<open>/^\/shop$/i\<close>
     RegExp_literal (cat [Bol, lit ''/blog'', Eol]) ''i'',
       \<comment> \<open>/^\/blog$/i\<close>
     RegExp_literal (cat [Bol, lit ''/bc'', Eol]) ''i'',
       \<comment> \<open>/^\/bc$/i\<close>
     RegExp_literal (cat [Bol, lit ''/sitio'', Eol]) ''i'',
       \<comment> \<open>/^\/sitio$/i\<close>
     RegExp_literal (cat [Bol, lit ''/sito'', Eol]) ''i'',
       \<comment> \<open>/^\/sito$/i\<close>
     RegExp_literal (cat [Bol, lit ''/oldsite'', Eol]) ''i'',
       \<comment> \<open>/^\/oldsite$/i\<close>
     RegExp_literal (cat [Bol, lit ''/old-site'', Eol]) ''i'',
       \<comment> \<open>/^\/old-site$/i\<close>
     RegExp_literal (cat [Bol, lit ''/'', Times Digit 4, Eol]) ''i'']
       \<comment> \<open>/^\/\d{4}$/i\<close>\<close>

text \<open>
  \<^verbatim>\<open>honeypot(options)\<close> of each of the three files, with the table of that file.
\<close>

definition honeypot :: "HoneypotOptions \<Rightarrow> Closure" where
  "honeypot options = honeypot_with ATTACK_PATTERNS options"

definition honeypot_part_002 :: "HoneypotOptions \<Rightarrow> Closure" where
  "honeypot_part_002 options = honeypot_with ATTACK_PATTERNS_part_002 options"

definition honeypot_part_003 :: "HoneypotOptions \<Rightarrow> Closure" where
  "honeypot_part_003 options = honeypot_with ATTACK_PATTERNS_part_003 options"

section \<open>Notions used in the statements\<close>

text \<open>
  A pattern without the \<^verbatim>\<open>g\<close> and the \<^verbatim>\<open>y\<close> flag is stateless: \<^verbatim>\<open>test\<close> neither reads nor
  writes its \<^verbatim>\<open>lastIndex\<close>. A pattern matches a string when its matcher succeeds at some
  index of it.
\<close>

definition stateless :: "RegExp \<Rightarrow> bool" where
  "stateless r = (\<not> global r \<and> \<not> sticky r)"

definition RegExp_matches :: "RegExp \<Rightarrow> string \<Rightarrow> bool" where
  "RegExp_matches r s = (scan (matcher r) False s 0 \<noteq> None)"

definition matches_some :: "RegExp list \<Rightarrow> string \<Rightarrow> bool" where
  "matches_some ps s = list_ex (\<lambda>p. RegExp_matches p s) ps"

definition additions :: "HoneypotOptions \<Rightarrow> RegExp list" where
  "additions options = (case patterns options of None \<Rightarrow> [] | Some ps \<Rightarrow> ps)"

definition exclusions :: "HoneypotOptions \<Rightarrow> RegExp list" where
  "exclusions options = (case exclude options of None \<Rightarrow> [] | Some ex \<Rightarrow> ex)"

definition excluded :: "RegExp list \<Rightarrow> RegExp \<Rightarrow> bool" where
  "excluded ex p = list_ex (\<lambda>e. source p = source e) ex"

definition configured_status :: "HoneypotOptions \<Rightarrow> StatusCode" where
  "configured_status options = (case status options of None \<Rightarrow> Status410 | Some st \<Rightarrow> st)"

text \<open>
  Two strings that the matcher of a pattern with the \<^verbatim>\<open>i\<close> flag cannot tell apart: they
  have the same length and, index by index, the same code unit after \<open>Canonicalize\<close>. The
  lemmas about the shapes of the signatures are stated with it.
\<close>

definition same_folded :: "string \<Rightarrow> string \<Rightarrow> bool" where
  "same_folded s t = (map (Canonicalize True) s = map (Canonicalize True) t)"






text \<open>A string with two slashes in a row somewhere.\<close>

fun has_run :: "string \<Rightarrow> bool" where
  "has_run (a # b # cs) = ((a = CHR ''/'' \<and> b = CHR ''/'') \<or> has_run (b # cs))"
| "has_run cs = False"

text \<open>
  The host calls one handler for one request after the other; the closure of a call is the
  one the call before left.
\<close>

fun serve :: "(Closure \<Rightarrow> Request \<Rightarrow> Result \<times> LogLine list \<times> Closure) \<Rightarrow> Closure \<Rightarrow>
    Request list \<Rightarrow> (Result \<times> LogLine list) list" where
  "serve h cl [] = []"
| "serve h cl (c # cs) = (case h cl c of (r, out, cl') \<Rightarrow> (r, out) # serve h cl' cs)"

text \<open>
  The composition as the specification words it: the built-ins without the excluded ones,
  followed by the additions. It is compared with \<open>effective_patterns\<close> below.
\<close>

definition compose :: "RegExp list \<Rightarrow> RegExp list \<Rightarrow> RegExp list \<Rightarrow> RegExp list" where
  "compose builtins adds ex = filter (\<lambda>p. \<not> excluded ex p) builtins @ adds"

subsection \<open>Patterns and requests of the examples\<close>

text \<open>
  In the order of the definitions: \<^verbatim>\<open>/^\/secret/i\<close>, \<^verbatim>\<open>/^\/secret/\<close>, \<^verbatim>\<open>/^\/secret/g\<close>,
  \<^verbatim>\<open>/^\/secret/y\<close>, \<^verbatim>\<open>/^\/blog$/i\<close> (a built-in of every revision), \<^verbatim>\<open>/^\/blog$/\<close>,
  \<^verbatim>\<open>/^\/(blog)$/i\<close> and \<^verbatim>\<open>/^\/nothing$/i\<close>.
\<close>

definition secret_i :: RegExp where
  "secret_i = RegExp_literal (cat [Bol, lit ''/secret'']) ''i''"

definition secret_plain :: RegExp where
  "secret_plain = RegExp_literal (cat [Bol, lit ''/secret'']) []"

definition secret_g :: RegExp where
  "secret_g = RegExp_literal (cat [Bol, lit ''/secret'']) ''g''"

definition secret_y :: RegExp where
  "secret_y = RegExp_literal (cat [Bol, lit ''/secret'']) ''y''"

definition blog_i :: RegExp where
  "blog_i = RegExp_literal (cat [Bol, lit ''/blog'', Eol]) ''i''"

definition blog_plain :: RegExp where
  "blog_plain = RegExp_literal (cat [Bol, lit ''/blog'', Eol]) []"



text \<open>
  The last entry of each of the three tables, \<^verbatim>\<open>/^\/\d{4}$/i\<close>.
\<close>

definition year_folder :: RegExp where
  "year_folder = RegExp_literal (cat [Bol, lit ''/'', Times Digit 4, Eol]) ''i''"

text \<open>No options, options with one field set, and a request without headers.\<close>

definition no_options :: HoneypotOptions where
  "no_options = \<lparr>patterns = None, exclude = None, log = None, status = None\<rparr>"

definition get :: "string \<Rightarrow> Request" where
  "get p = \<lparr>path = p, http_method = ''GET'', header = (\<lambda>name. None)\<rparr>"

definition exclude_only :: "RegExp list \<Rightarrow> HoneypotOptions" where
  "exclude_only ex = \<lparr>patterns = None, exclude = Some ex, log = None, status = None\<rparr>"

definition patterns_only :: "RegExp list \<Rightarrow> HoneypotOptions" where
  "patterns_only ps = \<lparr>patterns = Some ps, exclude = None, log = None, status = None\<rparr>"

definition status_only :: "StatusCode \<Rightarrow> HoneypotOptions" where
  "status_only st = \<lparr>patterns = None, exclude = None, log = None, status = Some st\<rparr>"

text \<open>
  A request that came through a proxy: \<^verbatim>\<open>x-forwarded-for\<close> holds two addresses,
  \<^verbatim>\<open>x-real-ip\<close> one, and there is no \<^verbatim>\<open>cf-connecting-ip\<close>.
\<close>

definition proxied :: "string \<Rightarrow> Request" where
  "proxied p =
     \<lparr>path = p, http_method = ''POST'',
      header = [''x-forwarded-for'' \<mapsto> '' 203.0.113.5 , 10.0.0.1'', ''x-real-ip'' \<mapsto> ''10.9.9.9'']\<rparr>"

definition log_only :: "bool \<Rightarrow> HoneypotOptions" where
  "log_only b = \<lparr>patterns = None, exclude = None, log = Some b, status = None\<rparr>"

text \<open>
  A request that came through Cloudflare, and one whose \<^verbatim>\<open>x-forwarded-for\<close> starts with
  an empty field.
\<close>

definition cloudflare :: "string \<Rightarrow> Request" where
  "cloudflare p =
     \<lparr>path = p, http_method = ''HEAD'',
      header = [''cf-connecting-ip'' \<mapsto> ''198.51.100.7'', ''x-forwarded-for'' \<mapsto> ''203.0.113.5'']\<rparr>"

definition odd_proxy :: "string \<Rightarrow> Request" where
  "odd_proxy p =
     \<lparr>path = p, http_method = ''GET'',
      header = [''x-forwarded-for'' \<mapsto> '' , 10.0.0.1'', ''x-real-ip'' \<mapsto> ''10.9.9.9'']\<rparr>"


section \<open>Evaluation of the character functions\<close>

lemma has_upper_Char [code]:
  "has_upper (Char b0 b1 b2 b3 b4 b5 b6 b7) =
     (b5 \<and> b6 \<and>
      (if b7 then \<not> (b0 \<and> b1 \<and> b2 \<and> b4)
       else (b0 \<or> b1 \<or> b2 \<or> b3 \<or> b4) \<and> \<not> (b4 \<and> b3 \<and> (b2 \<or> (b1 \<and> b0)))))"
  by (cases b0; cases b1; cases b2; cases b3; cases b4; cases b5; cases b6; cases b7)
     (simp_all add: has_upper_def)

lemma Canonicalize_Char [code]:
  "Canonicalize ic (Char b0 b1 b2 b3 b4 b5 b6 b7) =
     (if ic \<and> has_upper (Char b0 b1 b2 b3 b4 b5 b6 b7)
      then Char b0 b1 b2 b3 b4 False b6 b7 else Char b0 b1 b2 b3 b4 b5 b6 b7)"
  by (cases b0; cases b1; cases b2; cases b3; cases b4; cases b5; cases b6; cases b7)
     (simp_all add: Canonicalize_def has_upper_def char_of_def bit_numeral_simps bit_Suc_0_iff)


lemma Canonicalize_slash: "(Canonicalize ic x = CHR ''/'') = (x = CHR ''/'')"
  by (cases x) (auto simp: Canonicalize_Char has_upper_Char)



section \<open>The test loop\<close>

lemma RegExp_test_stateless:
  "stateless r \<Longrightarrow> RegExp_test r s = (RegExp_matches r s, r)"
  by (auto simp: RegExp_test_def stateless_def RegExp_matches_def split: option.splits)

lemma some_test_stateless:
  "list_all stateless ps \<Longrightarrow> some_test ps s = (matches_some ps s, ps)"
  by (induction ps) (auto simp: matches_some_def RegExp_test_stateless split: bool.splits)

lemma RegExp_test_keeps:
  "source (snd (RegExp_test r s)) = source r"
  "flags (snd (RegExp_test r s)) = flags r"
  "matcher (snd (RegExp_test r s)) = matcher r"
  by (auto simp: RegExp_test_def Let_def split: option.splits)

lemma some_test_first:
  "some_test ps s = (False, ps') \<Longrightarrow> RegExp_test p s = (True, p') \<Longrightarrow>
   some_test (ps @ p # qs) s = (True, ps' @ p' # qs)"
  by (induction ps arbitrary: ps') (auto split: prod.splits bool.splits)


lemma handler_part_003_eq:
  "handler_part_003 cl c = 
     (case handler cl (c\<lparr>path := replace_slashes (path c)\<rparr>) of (r, out, cl') \<Rightarrow> (r, out, cl'))"
  by (simp add: handler_part_003_def handler_def Let_def split: prod.splits bool.splits)

lemma handler_result:
  "fst (handler cl c) =
     (if fst (some_test (rules cl) (path c)) then Body None (blockStatus cl) else Next)"
  by (simp add: handler_def Let_def split: prod.splits bool.splits)

lemma handler_part_003_result:
  "fst (handler_part_003 cl c) =
     (if fst (some_test (rules cl) (replace_slashes (path c)))
      then Body None (blockStatus cl) else Next)"
  by (simp add: handler_part_003_def Let_def split: prod.splits bool.splits)

lemma honeypot_with_simps:
  "rules (honeypot_with builtins options) = effective_patterns builtins options"
  "blockStatus (honeypot_with builtins options) = configured_status options"
  "shouldLog (honeypot_with builtins options) = (case log options of None \<Rightarrow> True | Some b \<Rightarrow> b)"
  by (simp_all add: honeypot_with_def configured_status_def)

lemma handler_stateless:
  "list_all stateless (rules cl) \<Longrightarrow>
   handler cl c =
     (if matches_some (rules cl) (path c)
      then (Body None (blockStatus cl),
            (if shouldLog cl then [Blocked (client_ip (header c)) (http_method c) (path c)] else []),
            cl)
      else (Next, [], cl))"
  by (simp add: handler_def some_test_stateless)

lemma handler_part_003_stateless:
  "list_all stateless (rules cl) \<Longrightarrow>
   handler_part_003 cl c =
     (if matches_some (rules cl) (replace_slashes (path c))
      then (Body None (blockStatus cl),
            (if shouldLog cl
             then [Blocked (client_ip (header c)) (http_method c) (replace_slashes (path c))]
             else []),
            cl)
      else (Next, [], cl))"
  by (simp add: handler_part_003_def some_test_stateless)

lemma serve_stateless:
  "list_all stateless (rules cl) \<Longrightarrow>
   map fst (serve handler cl cs) =
     map (\<lambda>c. if matches_some (rules cl) (path c)
              then Body None (blockStatus cl) else Next) cs"
  "list_all stateless (rules cl) \<Longrightarrow>
   map fst (serve handler_part_003 cl cs) =
     map (\<lambda>c. if matches_some (rules cl) (replace_slashes (path c))
              then Body None (blockStatus cl) else Next) cs"
  by (induction cs) (simp_all add: handler_stateless handler_part_003_stateless)

section \<open>The built-in tables at work\<close>

lemma matcher_literal:
  "matcher (RegExp_literal body fl) = (\<lambda>s i. m (CHR ''i'' \<in> set fl) body s i Some)"
  by (simp add: RegExp_literal_def)

lemma pattern_text_examples:
  "source (ATTACK_PATTERNS ! 8) = ''^'' @ [backslash] @ ''/admin('' @ [backslash] @ ''.php)?$''"
  "source (ATTACK_PATTERNS_part_003 ! 17) = ''^'' @ [backslash] @ ''/uploads?$''"
  "source year_folder = ''^'' @ [backslash] @ ''/'' @ [backslash] @ ''d{4}$''"
  by code_simp+

lemma builtins_stateless:
  "list_all stateless ATTACK_PATTERNS"
  "list_all stateless ATTACK_PATTERNS_part_002"
  "list_all stateless ATTACK_PATTERNS_part_003"
  by (simp_all add: ATTACK_PATTERNS_def ATTACK_PATTERNS_part_002_def
      ATTACK_PATTERNS_part_003_def stateless_def global_def sticky_def RegExp_literal_def)

lemma year_folder_last:
  "last ATTACK_PATTERNS = year_folder"
  "last ATTACK_PATTERNS_part_002 = year_folder"
  "last ATTACK_PATTERNS_part_003 = year_folder"
  by (simp_all add: ATTACK_PATTERNS_def ATTACK_PATTERNS_part_002_def
      ATTACK_PATTERNS_part_003_def year_folder_def)

lemma effective_patterns_plain:
  "patterns options = None \<Longrightarrow> exclude options = None \<Longrightarrow>
   effective_patterns builtins options = builtins"
  by (simp add: effective_patterns_def)

lemma default_decision:
  "fst (handler (honeypot no_options) c) =
     (if matches_some ATTACK_PATTERNS (path c) then Body None Status410 else Next)"
  "fst (handler (honeypot_part_002 no_options) c) =
     (if matches_some ATTACK_PATTERNS_part_002 (path c) then Body None Status410 else Next)"
  "fst (handler_part_003 (honeypot_part_003 no_options) c) =
     (if matches_some ATTACK_PATTERNS_part_003 (replace_slashes (path c))
      then Body None Status410 else Next)"
  by (simp_all add: handler_result handler_part_003_result honeypot_def honeypot_part_002_def
      honeypot_part_003_def honeypot_with_simps effective_patterns_plain no_options_def
      configured_status_def some_test_stateless builtins_stateless)

lemma index_ts_blocks_1:
  "matches_some ATTACK_PATTERNS ''/admin''"
  "matches_some ATTACK_PATTERNS ''/blog''"
  "matches_some ATTACK_PATTERNS ''/wp-admin''"
  unfolding ATTACK_PATTERNS_def matches_some_def list_ex_Nil_iff list_ex_Cons_iff
    RegExp_matches_def matcher_literal
  by code_simp+

lemma index_ts_blocks_2:
  "matches_some ATTACK_PATTERNS ''/foo/wp-admin/index.php''"
  "matches_some ATTACK_PATTERNS ''/2017''"
  "matches_some ATTACK_PATTERNS ''/2024''"
  unfolding ATTACK_PATTERNS_def matches_some_def list_ex_Nil_iff list_ex_Cons_iff
    RegExp_matches_def matcher_literal
  by code_simp+

lemma index_ts_allows_1:
  "\<not> matches_some ATTACK_PATTERNS ''/api/admin''"
  "\<not> matches_some ATTACK_PATTERNS ''/blogs''"
  unfolding ATTACK_PATTERNS_def matches_some_def list_ex_Nil_iff list_ex_Cons_iff
    RegExp_matches_def matcher_literal
  by code_simp+

lemma index_ts_allows_2:
  "\<not> matches_some ATTACK_PATTERNS ''/abcd''"
  "\<not> matches_some ATTACK_PATTERNS ''/12345''"
  unfolding ATTACK_PATTERNS_def matches_some_def list_ex_Nil_iff list_ex_Cons_iff
    RegExp_matches_def matcher_literal
  by code_simp+

lemma index_ts_allows_3:
  "\<not> matches_some ATTACK_PATTERNS ''//blog''"
  "\<not> matches_some ATTACK_PATTERNS ''///admin''"
  unfolding ATTACK_PATTERNS_def matches_some_def list_ex_Nil_iff list_ex_Cons_iff
    RegExp_matches_def matcher_literal
  by code_simp+

lemma part_002_blocks_1:
  "matches_some ATTACK_PATTERNS_part_002 ''/admin''"
  "matches_some ATTACK_PATTERNS_part_002 ''/blog''"
  "matches_some ATTACK_PATTERNS_part_002 ''/wp-admin''"
  unfolding ATTACK_PATTERNS_part_002_def matches_some_def list_ex_Nil_iff list_ex_Cons_iff
    RegExp_matches_def matcher_literal
  by code_simp+

lemma part_002_blocks_2:
  "matches_some ATTACK_PATTERNS_part_002 ''/foo/wp-admin/index.php''"
  "matches_some ATTACK_PATTERNS_part_002 ''/2017''"
  "matches_some ATTACK_PATTERNS_part_002 ''/2024''"
  unfolding ATTACK_PATTERNS_part_002_def matches_some_def list_ex_Nil_iff list_ex_Cons_iff
    RegExp_matches_def matcher_literal
  by code_simp+

lemma part_002_allows_1:
  "\<not> matches_some ATTACK_PATTERNS_part_002 ''/api/admin''"
  "\<not> matches_some ATTACK_PATTERNS_part_002 ''/blogs''"
  unfolding ATTACK_PATTERNS_part_002_def matches_some_def list_ex_Nil_iff list_ex_Cons_iff
    RegExp_matches_def matcher_literal
  by code_simp+

lemma part_002_allows_2:
  "\<not> matches_some ATTACK_PATTERNS_part_002 ''/abcd''"
  "\<not> matches_some ATTACK_PATTERNS_part_002 ''/12345''"
  unfolding ATTACK_PATTERNS_part_002_def matches_some_def list_ex_Nil_iff list_ex_Cons_iff
    RegExp_matches_def matcher_literal
  by code_simp+

lemma part_002_allows_3:
  "\<not> matches_some ATTACK_PATTERNS_part_002 ''//blog''"
  "\<not> matches_some ATTACK_PATTERNS_part_002 ''///admin''"
  unfolding ATTACK_PATTERNS_part_002_def matches_some_def list_ex_Nil_iff list_ex_Cons_iff
    RegExp_matches_def matcher_literal
  by code_simp+

lemma part_003_blocks_1:
  "matches_some ATTACK_PATTERNS_part_003 ''/admin''"
  "matches_some ATTACK_PATTERNS_part_003 ''/blog''"
  "matches_some ATTACK_PATTERNS_part_003 ''/wp-admin''"
  unfolding ATTACK_PATTERNS_part_003_def matches_some_def list_ex_Nil_iff list_ex_Cons_iff
    RegExp_matches_def matcher_literal
  by code_simp+

lemma part_003_blocks_2:
  "matches_some ATTACK_PATTERNS_part_003 ''/foo/wp-admin/index.php''"
  "matches_some ATTACK_PATTERNS_part_003 ''/2017''"
  "matches_some ATTACK_PATTERNS_part_003 ''/2024''"
  unfolding ATTACK_PATTERNS_part_003_def matches_some_def list_ex_Nil_iff list_ex_Cons_iff
    RegExp_matches_def matcher_literal
  by code_simp+

lemma part_003_allows_1:
  "\<not> matches_some ATTACK_PATTERNS_part_003 ''/api/admin''"
  "\<not> matches_some ATTACK_PATTERNS_part_003 ''/blogs''"
  unfolding ATTACK_PATTERNS_part_003_def matches_some_def list_ex_Nil_iff list_ex_Cons_iff
    RegExp_matches_def matcher_literal
  by code_simp+

lemma part_003_allows_2:
  "\<not> matches_some ATTACK_PATTERNS_part_003 ''/abcd''"
  "\<not> matches_some ATTACK_PATTERNS_part_003 ''/12345''"
  unfolding ATTACK_PATTERNS_part_003_def matches_some_def list_ex_Nil_iff list_ex_Cons_iff
    RegExp_matches_def matcher_literal
  by code_simp+


lemma replace_slashes_examples:
  "replace_slashes ''//blog'' = ''/blog''"
  "replace_slashes ''///admin'' = ''/admin''"
  "replace_slashes ''/admin'' = ''/admin''"
  "replace_slashes ''/api/admin'' = ''/api/admin''"
  "replace_slashes ''/blog'' = ''/blog''"
  "replace_slashes ''/blogs'' = ''/blogs''"
  "replace_slashes ''/wp-admin'' = ''/wp-admin''"
  "replace_slashes ''/foo/wp-admin/index.php'' = ''/foo/wp-admin/index.php''"
  "replace_slashes ''/2017'' = ''/2017''"
  "replace_slashes ''/2024'' = ''/2024''"
  "replace_slashes ''/abcd'' = ''/abcd''"
  "replace_slashes ''/12345'' = ''/12345''"
  "replace_slashes ''/wp-login.php'' = ''/wp-login.php''"
  by simp_all

section \<open>Collapsing the slashes\<close>

lemma replace_slashes_hd:
  "replace_slashes s \<noteq> [] \<Longrightarrow> hd (replace_slashes s) = hd s"
  by (cases s) auto

lemma replace_slashes_no_run: "\<not> has_run (replace_slashes s)"
proof (induction s rule: replace_slashes.induct)
  case 1
  then show ?case by simp
next
  case (2 c cs)
  show ?case
  proof (cases "c = CHR ''/''")
    case True
    let ?r = "dropWhile (\<lambda>x. x = CHR ''/'') cs"
    have ih: "\<not> has_run (replace_slashes ?r)"
      using 2 True by simp
    show ?thesis
    proof (cases "replace_slashes ?r")
      case Nil
      then show ?thesis using True by simp
    next
      case (Cons d ds)
      have "?r \<noteq> []"
      proof
        assume e: "?r = []"
        have "replace_slashes ?r = []"
          unfolding e by simp
        with Cons show False by simp
      qed
      then have "hd ?r \<noteq> CHR ''/''"
        using hd_dropWhile [of "\<lambda>x. x = CHR ''/''" cs] by simp
      moreover have "d = hd ?r"
        using replace_slashes_hd [of ?r] Cons by simp
      ultimately show ?thesis
        using True ih Cons by simp
    qed
  next
    case False
    then have ih: "\<not> has_run (replace_slashes cs)"
      using 2 by simp
    show ?thesis
      using False ih by (cases "replace_slashes cs") simp_all
  qed
qed

lemma replace_slashes_fixed: "\<not> has_run s \<Longrightarrow> replace_slashes s = s"
proof (induction s rule: replace_slashes.induct)
  case 1
  then show ?case by simp
next
  case (2 c cs)
  show ?case
  proof (cases "c = CHR ''/''")
    case True
    then have "dropWhile (\<lambda>x. x = CHR ''/'') cs = cs"
      using "2.prems" by (cases cs) auto
    moreover have "\<not> has_run cs"
      using "2.prems" by (cases cs) auto
    ultimately show ?thesis
      using True "2.IH"(1) by simp
  next
    case False
    moreover have "\<not> has_run cs"
      using "2.prems" by (cases cs) auto
    ultimately show ?thesis
      using "2.IH"(2) by simp
  qed
qed

lemma replace_slashes_idem: "replace_slashes (replace_slashes s) = replace_slashes s"
  by (rule replace_slashes_fixed) (rule replace_slashes_no_run)

section \<open>What the three shapes of signature match\<close>

text \<open>
  A signature anchored at both ends matches the paths that are its text up to the case of
  letters; one anchored at the start matches the paths that begin so; one without anchors
  matches the paths that contain its text. A signature that starts with \<^verbatim>\<open>^\<close> can match
  at index 0 only.
\<close>

lemma scan_after_start:
  assumes "\<And>j. 0 < j \<Longrightarrow> mt s j = None"
  shows "0 < i \<Longrightarrow> scan mt False s i = None"
proof (induction "Suc (length s) - i" arbitrary: i)
  case 0
  then show ?case by (simp add: scan.simps [of mt _ s i])
next
  case (Suc n)
  then have "n = Suc (length s) - Suc i" by simp
  then have "scan mt False s (Suc i) = None"
    using Suc.hyps(1) by simp
  then show ?case
    using assms [of i] Suc.prems by (simp add: scan.simps [of mt _ s i])
qed

lemma scan_anchored:
  assumes "\<And>j. 0 < j \<Longrightarrow> mt s j = None"
  shows "scan mt False s 0 = mt s 0"
proof -
  have "scan mt False s (Suc 0) = None"
    by (rule scan_after_start) (use assms in simp_all)
  then show ?thesis
    by (simp add: scan.simps [of mt _ s 0] split: option.splits)
qed

lemma Canonicalize_slash_eq:
  "(Canonicalize ic x = Canonicalize ic CHR ''/'') = (x = CHR ''/'')"
proof -
  have h: "Canonicalize ic CHR ''/'' = CHR ''/''"
    by (simp add: Canonicalize_Char has_upper_Char)
  show ?thesis
    by (simp only: h Canonicalize_slash)
qed

lemma same_folded_Cons:
  "same_folded (a # s) (b # t) = (Canonicalize True a = Canonicalize True b \<and> same_folded s t)"
  by (simp add: same_folded_def)

lemma m_lit:
  "i \<le> length s \<Longrightarrow>
   m True (lit w) s i k =
     (if i + length w \<le> length s \<and> same_folded (take (length w) (drop i s)) w
      then k (i + length w) else None)"
proof (induction w arbitrary: i)
  case Nil
  then show ?case by (simp add: lit_def same_folded_def)
next
  case (Cons c w)
  have l: "lit (c # w) = Seq (Chr c) (lit w)"
    by (simp add: lit_def)
  show ?case
  proof (cases "i < length s")
    case True
    then have t: "take (Suc (length w)) (drop i s) = s ! i # take (length w) (drop (Suc i) s)"
      by (simp add: Cons_nth_drop_Suc [symmetric])
    from True have "Suc i \<le> length s" by simp
    then show ?thesis
      using True by (auto simp: l Cons.IH t same_folded_Cons)
  next
    case False
    then show ?thesis by (simp add: l)
  qed
qed

lemma exact_signature:
  "RegExp_matches (RegExp_literal (cat [Bol, lit w, Eol]) ''i'') s = same_folded s w"
proof -
  have "RegExp_matches (RegExp_literal (cat [Bol, lit w, Eol]) ''i'') s =
      (m True (cat [Bol, lit w, Eol]) s 0 Some \<noteq> None)"
    unfolding RegExp_matches_def matcher_literal
    by (subst scan_anchored) (simp_all add: cat_def)
  also have "\<dots> = (length w = length s \<and> same_folded (take (length w) s) w)"
    by (auto simp: cat_def m_lit)
  also have "\<dots> = same_folded s w"
  proof
    assume a: "length w = length s \<and> same_folded (take (length w) s) w"
    then have "take (length w) s = s" by simp
    with a show "same_folded s w" by simp
  next
    assume a: "same_folded s w"
    then have "length s = length w"
      unfolding same_folded_def by (rule map_eq_imp_length_eq)
    with a show "length w = length s \<and> same_folded (take (length w) s) w"
      by simp
  qed
  finally show ?thesis .
qed

lemma prefix_signature:
  "RegExp_matches (RegExp_literal (cat [Bol, lit w]) ''i'') s =
     (length w \<le> length s \<and> same_folded (take (length w) s) w)"
proof -
  have "RegExp_matches (RegExp_literal (cat [Bol, lit w]) ''i'') s =
      (m True (cat [Bol, lit w]) s 0 Some \<noteq> None)"
    unfolding RegExp_matches_def matcher_literal
    by (subst scan_anchored) (simp_all add: cat_def)
  also have "\<dots> = (length w \<le> length s \<and> same_folded (take (length w) s) w)"
    by (auto simp: cat_def m_lit)
  finally show ?thesis .
qed


lemma scan_exists:
  "(scan mt False s i \<noteq> None) = (\<exists>j. i \<le> j \<and> j \<le> length s \<and> mt s j \<noteq> None)"
proof (induction "Suc (length s) - i" arbitrary: i)
  case 0
  then have "length s < i" by simp
  then show ?case
    by (auto simp: scan.simps [of mt _ s i])
next
  case (Suc n)
  then have n: "n = Suc (length s) - Suc i" and i: "i \<le> length s"
    by simp_all
  have IH: "(scan mt False s (Suc i) \<noteq> None) =
      (\<exists>j. Suc i \<le> j \<and> j \<le> length s \<and> mt s j \<noteq> None)"
    using n by (rule Suc.hyps(1))
  show ?case
  proof (cases "mt s i")
    case None
    have "(\<exists>j. i \<le> j \<and> j \<le> length s \<and> mt s j \<noteq> None) =
        (\<exists>j. Suc i \<le> j \<and> j \<le> length s \<and> mt s j \<noteq> None)"
      using None by (metis Suc_leD Suc_leI le_neq_implies_less)
    then show ?thesis
      using None i IH by (simp add: scan.simps [of mt _ s i])
  next
    case (Some e)
    then show ?thesis
      using i by (auto simp: scan.simps [of mt _ s i])
  qed
qed

lemma anywhere_signature:
  "RegExp_matches (RegExp_literal (lit w) ''i'') s =
     (\<exists>j. j + length w \<le> length s \<and> same_folded (take (length w) (drop j s)) w)"
proof -
  have "RegExp_matches (RegExp_literal (lit w) ''i'') s =
      (\<exists>j. j \<le> length s \<and> m True (lit w) s j Some \<noteq> None)"
    unfolding RegExp_matches_def matcher_literal scan_exists by simp
  also have "\<dots> = (\<exists>j. j \<le> length s \<and> j + length w \<le> length s \<and>
      same_folded (take (length w) (drop j s)) w)"
    by (rule ex_cong1) (auto simp: m_lit split: if_splits)
  also have "\<dots> = (\<exists>j. j + length w \<le> length s \<and>
      same_folded (take (length w) (drop j s)) w)"
    by (rule ex_cong1) auto
  finally show ?thesis .
qed

section \<open>The year folders\<close>

lemma year_folder_run:
  "(m True (cat [Bol, lit ''/'', Times Digit 4, Eol]) s 0 Some \<noteq> None) =
   (length s = 5 \<and> s ! 0 = CHR ''/'' \<and> is_digit (s ! 1) \<and> is_digit (s ! 2)
      \<and> is_digit (s ! 3) \<and> is_digit (s ! 4))"
  by (simp add: cat_def lit_def eval_nat_numeral Canonicalize_slash_eq)

lemma five_characters:
  "(length s = 5 \<and> s ! 0 = CHR ''/'' \<and> is_digit (s ! 1) \<and> is_digit (s ! 2)
      \<and> is_digit (s ! 3) \<and> is_digit (s ! 4)) =
   (\<exists>a b c d. s = [CHR ''/'', a, b, c, d] \<and> is_digit a \<and> is_digit b
      \<and> is_digit c \<and> is_digit d)"
proof
  assume a: "length s = 5 \<and> s ! 0 = CHR ''/'' \<and> is_digit (s ! 1) \<and> is_digit (s ! 2)
      \<and> is_digit (s ! 3) \<and> is_digit (s ! 4)"
  then obtain x a b c d where "s = [x, a, b, c, d]"
    by (auto simp: eval_nat_numeral length_Suc_conv)
  with a show "\<exists>a b c d. s = [CHR ''/'', a, b, c, d] \<and> is_digit a \<and> is_digit b
      \<and> is_digit c \<and> is_digit d"
    by (simp add: eval_nat_numeral)
next
  assume "\<exists>a b c d. s = [CHR ''/'', a, b, c, d] \<and> is_digit a \<and> is_digit b
      \<and> is_digit c \<and> is_digit d"
  then show "length s = 5 \<and> s ! 0 = CHR ''/'' \<and> is_digit (s ! 1) \<and> is_digit (s ! 2)
      \<and> is_digit (s ! 3) \<and> is_digit (s ! 4)"
    by (auto simp: eval_nat_numeral)
qed

lemma year_folder_matches:
  "RegExp_matches year_folder s =
     (\<exists>a b c d. s = [CHR ''/'', a, b, c, d] \<and> is_digit a \<and> is_digit b
        \<and> is_digit c \<and> is_digit d)"
proof -
  have "RegExp_matches year_folder s =
      (m True (cat [Bol, lit ''/'', Times Digit 4, Eol]) s 0 Some \<noteq> None)"
    unfolding RegExp_matches_def year_folder_def matcher_literal
    by (subst scan_anchored) (simp_all add: cat_def)
  then show ?thesis
    by (simp only: year_folder_run five_characters)
qed

section \<open>Composition of the rule list\<close>

lemma effective_patterns_filter:
  "effective_patterns builtins options =
     filter (\<lambda>p. \<not> excluded (exclusions options) p) (builtins @ additions options)"
  by (cases "exclude options")
     (auto simp: effective_patterns_def exclusions_def additions_def excluded_def Let_def)

lemma excluded_iff: "excluded ex p = (\<exists>e\<in>set ex. source p = source e)"
  by (simp add: excluded_def list_ex_iff)

lemma excludedI: "e \<in> set ex \<Longrightarrow> source e = source p \<Longrightarrow> excluded ex p"
  unfolding excluded_iff by metis

lemma blog_i_builtin:
  "blog_i \<in> set ATTACK_PATTERNS" "blog_i \<in> set ATTACK_PATTERNS_part_003"
  by (simp_all add: blog_i_def ATTACK_PATTERNS_def ATTACK_PATTERNS_part_003_def)


text \<open>
  C4, as amended. The effective rule list is the built-in list without the excluded
  elements followed by the additions without the excluded elements, each part in its given
  order: the exclusions filter the joined list, additions included.
\<close>

theorem effective_patterns_composition:
  "effective_patterns builtins options =
     filter (\<lambda>p. \<not> excluded (exclusions options) p) builtins @
     filter (\<lambda>p. \<not> excluded (exclusions options) p) (additions options)"
  by (simp add: effective_patterns_filter)

text \<open>
  C4, as the claim states it, fails: with the addition \<^verbatim>\<open>/^\/secret/i\<close> and the exclusion
  \<^verbatim>\<open>/^\/secret/\<close> the addition is removed from the list, where the claimed composition
  keeps it.
\<close>

theorem additions_are_filtered_counterexample:
  "effective_patterns ATTACK_PATTERNS
     \<lparr>patterns = Some [secret_i], exclude = Some [secret_plain], log = None, status = None\<rparr>
   \<noteq> compose ATTACK_PATTERNS
       (additions \<lparr>patterns = Some [secret_i], exclude = Some [secret_plain],
          log = None, status = None\<rparr>)
       (exclusions \<lparr>patterns = Some [secret_i], exclude = Some [secret_plain],
          log = None, status = None\<rparr>)"
proof -
  have "length (effective_patterns ATTACK_PATTERNS
     \<lparr>patterns = Some [secret_i], exclude = Some [secret_plain], log = None, status = None\<rparr>)
   \<noteq> length (compose ATTACK_PATTERNS
       (additions \<lparr>patterns = Some [secret_i], exclude = Some [secret_plain],
          log = None, status = None\<rparr>)
       (exclusions \<lparr>patterns = Some [secret_i], exclude = Some [secret_plain],
          log = None, status = None\<rparr>))"
    by code_simp
  then show ?thesis by metis
qed



text \<open>
  C10. The exclusion test compares pattern texts and nothing else: a rule whose text is the
  text of an exclusion is removed whatever the flags of the two are, and giving the
  exclusions any other flags leaves the effective rule list as it is.
\<close>

theorem exclusion_ignores_flags:
  "(e \<in> set (exclusions options) \<and> source e = source p \<longrightarrow>
      p \<notin> set (effective_patterns builtins options)) \<and>
   effective_patterns builtins (options\<lparr>exclude := Some (map (\<lambda>e. e\<lparr>flags := f e\<rparr>) ex)\<rparr>) =
   effective_patterns builtins (options\<lparr>exclude := Some ex\<rparr>)"
proof
  show "e \<in> set (exclusions options) \<and> source e = source p \<longrightarrow>
      p \<notin> set (effective_patterns builtins options)"
  proof (intro impI, elim conjE)
    assume "e \<in> set (exclusions options)" "source e = source p"
    then have "excluded (exclusions options) p"
      by (rule excludedI)
    then show "p \<notin> set (effective_patterns builtins options)"
      by (simp add: effective_patterns_filter)
  qed
next
  have "excluded (map (\<lambda>e. e\<lparr>flags := f e\<rparr>) ex) = excluded ex"
    by (auto simp: excluded_iff fun_eq_iff)
  then show "effective_patterns builtins
       (options\<lparr>exclude := Some (map (\<lambda>e. e\<lparr>flags := f e\<rparr>) ex)\<rparr>) =
     effective_patterns builtins (options\<lparr>exclude := Some ex\<rparr>)"
    by (simp add: effective_patterns_filter exclusions_def additions_def)
qed

text \<open>
  The exclusion \<^verbatim>\<open>/^\/blog$/\<close>, without flags, removes the built-in \<^verbatim>\<open>/^\/blog$/i\<close>, and
  \<^verbatim>\<open>/blog\<close> passes.
\<close>

theorem exclusion_ignores_flags_witness:
  "blog_plain \<in> set (exclusions (exclude_only [blog_plain])) \<and>
   source blog_plain = source blog_i \<and>
   flags blog_plain \<noteq> flags blog_i \<and>
   blog_i \<in> set ATTACK_PATTERNS \<and>
   blog_i \<notin> set (effective_patterns ATTACK_PATTERNS (exclude_only [blog_plain])) \<and>
   fst (handler (honeypot (exclude_only [blog_plain])) (get ''/blog'')) = Next"
proof -
  have h1: "blog_plain \<in> set (exclusions (exclude_only [blog_plain]))"
    by (simp add: exclusions_def exclude_only_def)
  have h2: "source blog_plain = source blog_i"
    by (simp add: blog_plain_def blog_i_def RegExp_literal_def)
  have h3: "flags blog_plain \<noteq> flags blog_i"
    by (simp add: blog_plain_def blog_i_def RegExp_literal_def)
  have h4: "fst (handler (honeypot (exclude_only [blog_plain])) (get ''/blog'')) = Next"
    by code_simp
  show ?thesis
    using exclusion_ignores_flags [where e = blog_plain and p = blog_i
        and options = "exclude_only [blog_plain]" and builtins = ATTACK_PATTERNS]
      h1 h2 h3 h4 blog_i_builtin(1)
    by blast
qed

section \<open>Status and logging\<close>

lemma handler_keeps:
  "blockStatus (snd (snd (handler cl c))) = blockStatus cl"
  "shouldLog (snd (snd (handler cl c))) = shouldLog cl"
  "blockStatus (snd (snd (handler_part_003 cl c))) = blockStatus cl"
  "shouldLog (snd (snd (handler_part_003 cl c))) = shouldLog cl"
  by (simp_all add: handler_def handler_part_003_def Let_def split: prod.splits bool.splits)

lemma serve_results:
  assumes res: "\<And>cl c. fst (h cl c) = Next \<or> fst (h cl c) = Body None (blockStatus cl)"
    and keep: "\<And>cl c. blockStatus (snd (snd (h cl c))) = blockStatus cl"
  shows "ro \<in> set (serve h cl cs) \<Longrightarrow> fst ro = Next \<or> fst ro = Body None (blockStatus cl)"
proof (induction cs arbitrary: cl)
  case Nil
  then show ?case by simp
next
  case (Cons c cs)
  obtain r out cl' where h: "h cl c = (r, out, cl')"
    by (cases "h cl c") auto
  have k: "blockStatus cl' = blockStatus cl"
    using keep [of cl c] h by simp
  have r: "r = Next \<or> r = Body None (blockStatus cl)"
    using res [of cl c] h by simp
  from Cons.prems h have "ro = (r, out) \<or> ro \<in> set (serve h cl' cs)"
    by simp
  then show ?case
  proof
    assume "ro = (r, out)"
    with r show ?thesis by simp
  next
    assume "ro \<in> set (serve h cl' cs)"
    then have "fst ro = Next \<or> fst ro = Body None (blockStatus cl')"
      by (rule Cons.IH)
    with k show ?thesis by simp
  qed
qed

lemma serve_handler_results:
  "ro \<in> set (serve handler cl cs) \<Longrightarrow> fst ro = Next \<or> fst ro = Body None (blockStatus cl)"
  by (rule serve_results [where h = handler]) (simp_all add: handler_result handler_keeps)

lemma serve_handler_part_003_results:
  "ro \<in> set (serve handler_part_003 cl cs) \<Longrightarrow>
   fst ro = Next \<or> fst ro = Body None (blockStatus cl)"
  by (rule serve_results [where h = handler_part_003])
     (simp_all add: handler_part_003_result handler_keeps)

text \<open>
  C5. Whatever requests a middleware has served, each of its answers is either \<^verbatim>\<open>next()\<close>
  or the empty body with the configured status; the status is one of 410, 404 and 403; it
  is 410 when the option is left out, and the given one otherwise, so that with the option
  403 a blocked request gets 403.
\<close>

theorem blocked_status:
  "(\<forall>ro\<in>set (serve handler (honeypot_with builtins options) cs).
      fst ro = Next \<or> fst ro = Body None (configured_status options)) \<and>
   (\<forall>ro\<in>set (serve handler_part_003 (honeypot_with builtins options) cs).
      fst ro = Next \<or> fst ro = Body None (configured_status options)) \<and>
   status_number (configured_status options) \<in> {410, 404, 403} \<and>
   (status options = None \<longrightarrow> configured_status options = Status410) \<and>
   (status options = Some st \<longrightarrow> configured_status options = st) \<and>
   status_number Status403 = 403"
proof (intro conjI ballI impI)
  fix ro
  assume "ro \<in> set (serve handler (honeypot_with builtins options) cs)"
  then show "fst ro = Next \<or> fst ro = Body None (configured_status options)"
    using serve_handler_results [of ro "honeypot_with builtins options" cs]
    by (simp add: honeypot_with_simps)
next
  fix ro
  assume "ro \<in> set (serve handler_part_003 (honeypot_with builtins options) cs)"
  then show "fst ro = Next \<or> fst ro = Body None (configured_status options)"
    using serve_handler_part_003_results [of ro "honeypot_with builtins options" cs]
    by (simp add: honeypot_with_simps)
next
  show "status_number (configured_status options) \<in> {410, 404, 403}"
    by (cases "configured_status options") simp_all
qed (simp_all add: configured_status_def)

text \<open>
  With the status 403, \<^verbatim>\<open>/wp-admin\<close> is answered with 403 and \<^verbatim>\<open>/api/admin\<close> passes; with no
  options, \<^verbatim>\<open>/wp-admin\<close> is answered with 410.
\<close>

theorem blocked_status_witness:
  "status (status_only Status403) = Some Status403 \<and>
   map fst (serve handler (honeypot_with ATTACK_PATTERNS (status_only Status403))
     [get ''/wp-admin'', get ''/api/admin'']) = [Body None Status403, Next] \<and>
   status_number Status403 = 403 \<and>
   status no_options = None \<and>
   map fst (serve handler_part_003 (honeypot_with ATTACK_PATTERNS_part_003 no_options)
     [get ''/wp-admin'']) = [Body None Status410]"
proof -
  have h1: "status (status_only Status403) = Some Status403" "status no_options = None"
    by (simp_all add: status_only_def no_options_def)
  have s1: "list_all stateless (rules (honeypot_with ATTACK_PATTERNS (status_only Status403)))"
    by (simp add: honeypot_with_simps effective_patterns_plain status_only_def
        builtins_stateless)
  have s2: "list_all stateless (rules (honeypot_with ATTACK_PATTERNS_part_003 no_options))"
    by (simp add: honeypot_with_simps effective_patterns_plain no_options_def
        builtins_stateless)
  have r1: "map fst (serve handler (honeypot_with ATTACK_PATTERNS (status_only Status403))
      [get ''/wp-admin'', get ''/api/admin'']) =
     [Body None (configured_status (status_only Status403)), Next]"
    unfolding serve_stateless(1) [OF s1]
    by (simp add: honeypot_with_simps effective_patterns_plain
        status_only_def get_def index_ts_blocks_1 index_ts_allows_1)
  have r2: "map fst (serve handler_part_003
      (honeypot_with ATTACK_PATTERNS_part_003 no_options) [get ''/wp-admin'']) =
     [Body None (configured_status no_options)]"
    unfolding serve_stateless(2) [OF s2]
    by (simp add: honeypot_with_simps effective_patterns_plain
        no_options_def get_def part_003_blocks_1)
  show ?thesis
    using blocked_status [where builtins = ATTACK_PATTERNS
        and options = "status_only Status403" and st = Status403
        and cs = "[get ''/wp-admin'', get ''/api/admin'']"]
      blocked_status [where builtins = ATTACK_PATTERNS_part_003
        and options = no_options and st = Status403 and cs = "[get ''/wp-admin'']"]
      h1 r1 r2
    by simp
qed

lemma client_ip_cases:
  "truthy (hdr ''cf-connecting-ip'') \<Longrightarrow> Some (client_ip hdr) = hdr ''cf-connecting-ip''"
  "\<not> truthy (hdr ''cf-connecting-ip'') \<Longrightarrow>
   truthy (map_option (\<lambda>v. trim (first_field v)) (hdr ''x-forwarded-for'')) \<Longrightarrow>
   Some (client_ip hdr) = map_option (\<lambda>v. trim (first_field v)) (hdr ''x-forwarded-for'')"
  "\<not> truthy (hdr ''cf-connecting-ip'') \<Longrightarrow>
   \<not> truthy (map_option (\<lambda>v. trim (first_field v)) (hdr ''x-forwarded-for'')) \<Longrightarrow>
   truthy (hdr ''x-real-ip'') \<Longrightarrow> Some (client_ip hdr) = hdr ''x-real-ip''"
  "\<not> truthy (hdr ''cf-connecting-ip'') \<Longrightarrow>
   \<not> truthy (map_option (\<lambda>v. trim (first_field v)) (hdr ''x-forwarded-for'')) \<Longrightarrow>
   \<not> truthy (hdr ''x-real-ip'') \<Longrightarrow> client_ip hdr = ''unknown''"
  by (auto simp: client_ip_def or_else_def truthy_def split: option.splits)

lemma handler_same_path:
  "path c = path c' \<Longrightarrow> fst (handler cl c) = fst (handler cl c')"
  "path c = path c' \<Longrightarrow> snd (snd (handler cl c)) = snd (snd (handler cl c'))"
  "path c = path c' \<Longrightarrow> fst (handler_part_003 cl c) = fst (handler_part_003 cl c')"
  "path c = path c' \<Longrightarrow>
   snd (snd (handler_part_003 cl c)) = snd (snd (handler_part_003 cl c'))"
  by (simp_all add: handler_def handler_part_003_def Let_def split: prod.splits bool.splits)

lemma handler_output:
  "fst (snd (handler cl c)) =
     (if fst (handler cl c) = Body None (blockStatus cl) \<and> shouldLog cl
      then [Blocked (client_ip (header c)) (http_method c) (path c)] else [])"
  "fst (snd (handler_part_003 cl c)) =
     (if fst (handler_part_003 cl c) = Body None (blockStatus cl) \<and> shouldLog cl
      then [Blocked (client_ip (header c)) (http_method c) (replace_slashes (path c))]
      else [])"
  by (simp_all add: handler_def handler_part_003_def Let_def split: prod.splits bool.splits)

text \<open>
  C7. A handler prints a line exactly when it blocks and logging is on, and logging is on
  unless the option says otherwise. The client address of the line is the
  \<^verbatim>\<open>cf-connecting-ip\<close> header when that is a non-empty string, else the trimmed first
  comma-separated field of \<^verbatim>\<open>x-forwarded-for\<close> when that is non-empty, else \<^verbatim>\<open>x-real-ip\<close>
  when that is non-empty, else \<^verbatim>\<open>unknown\<close>. Requests with the same path get the same
  decision and status, and leave the same closure, whatever their headers and method.
\<close>

theorem logging_and_client_address:
  "fst (snd (handler cl c)) =
     (if fst (handler cl c) = Body None (blockStatus cl) \<and> shouldLog cl
      then [Blocked (client_ip (header c)) (http_method c) (path c)] else []) \<and>
   fst (snd (handler_part_003 cl c)) =
     (if fst (handler_part_003 cl c) = Body None (blockStatus cl) \<and> shouldLog cl
      then [Blocked (client_ip (header c)) (http_method c) (replace_slashes (path c))]
      else []) \<and>
   (log options = None \<longrightarrow> shouldLog (honeypot_with builtins options)) \<and>
   (log options = Some b \<longrightarrow> shouldLog (honeypot_with builtins options) = b) \<and>
   (truthy (hdr ''cf-connecting-ip'') \<longrightarrow>
      Some (client_ip hdr) = hdr ''cf-connecting-ip'') \<and>
   (\<not> truthy (hdr ''cf-connecting-ip'') \<and>
    truthy (map_option (\<lambda>v. trim (first_field v)) (hdr ''x-forwarded-for'')) \<longrightarrow>
      Some (client_ip hdr) =
        map_option (\<lambda>v. trim (first_field v)) (hdr ''x-forwarded-for'')) \<and>
   (\<not> truthy (hdr ''cf-connecting-ip'') \<and>
    \<not> truthy (map_option (\<lambda>v. trim (first_field v)) (hdr ''x-forwarded-for'')) \<and>
    truthy (hdr ''x-real-ip'') \<longrightarrow>
      Some (client_ip hdr) = hdr ''x-real-ip'') \<and>
   (\<not> truthy (hdr ''cf-connecting-ip'') \<and>
    \<not> truthy (map_option (\<lambda>v. trim (first_field v)) (hdr ''x-forwarded-for'')) \<and>
    \<not> truthy (hdr ''x-real-ip'') \<longrightarrow>
      client_ip hdr = ''unknown'') \<and>
   (path c = path c' \<longrightarrow>
      fst (handler cl c) = fst (handler cl c') \<and>
      snd (snd (handler cl c)) = snd (snd (handler cl c')) \<and>
      fst (handler_part_003 cl c) = fst (handler_part_003 cl c') \<and>
      snd (snd (handler_part_003 cl c)) = snd (snd (handler_part_003 cl c')))"
  using handler_output [of cl c] client_ip_cases [of hdr] handler_same_path [of c c' cl]
  by (simp add: honeypot_with_simps)

text \<open>
  Four requests for \<^verbatim>\<open>/wp-admin\<close>, one for each way the client address is found, and the
  lines printed with logging left on, turned off, and for a request that passes.
\<close>

theorem logging_and_client_address_witness:
  "log no_options = None \<and>
   shouldLog (honeypot_with ATTACK_PATTERNS no_options) \<and>
   log (log_only False) = Some False \<and>
   \<not> shouldLog (honeypot_with ATTACK_PATTERNS (log_only False)) \<and>
   truthy (header (cloudflare ''/wp-admin'') ''cf-connecting-ip'') \<and>
   client_ip (header (cloudflare ''/wp-admin'')) = ''198.51.100.7'' \<and>
   \<not> truthy (header (proxied ''/wp-admin'') ''cf-connecting-ip'') \<and>
   truthy (map_option (\<lambda>v. trim (first_field v))
     (header (proxied ''/wp-admin'') ''x-forwarded-for'')) \<and>
   client_ip (header (proxied ''/wp-admin'')) = ''203.0.113.5'' \<and>
   \<not> truthy (header (odd_proxy ''/wp-admin'') ''cf-connecting-ip'') \<and>
   \<not> truthy (map_option (\<lambda>v. trim (first_field v))
     (header (odd_proxy ''/wp-admin'') ''x-forwarded-for'')) \<and>
   truthy (header (odd_proxy ''/wp-admin'') ''x-real-ip'') \<and>
   client_ip (header (odd_proxy ''/wp-admin'')) = ''10.9.9.9'' \<and>
   \<not> truthy (header (get ''/wp-admin'') ''cf-connecting-ip'') \<and>
   \<not> truthy (map_option (\<lambda>v. trim (first_field v))
     (header (get ''/wp-admin'') ''x-forwarded-for'')) \<and>
   \<not> truthy (header (get ''/wp-admin'') ''x-real-ip'') \<and>
   client_ip (header (get ''/wp-admin'')) = ''unknown'' \<and>
   path (proxied ''/wp-admin'') = path (get ''/wp-admin'') \<and>
   fst (handler (honeypot no_options) (proxied ''/wp-admin'')) = Body None Status410 \<and>
   fst (snd (handler (honeypot no_options) (proxied ''/wp-admin'')))
     = [Blocked ''203.0.113.5'' ''POST'' ''/wp-admin''] \<and>
   fst (snd (handler (honeypot (log_only False)) (proxied ''/wp-admin''))) = [] \<and>
   fst (snd (handler (honeypot no_options) (proxied ''/api/admin''))) = []"
proof -
  have l: "log no_options = None" "log (log_only False) = Some False"
    by (simp_all add: no_options_def log_only_def)
  have t1: "truthy (header (cloudflare ''/wp-admin'') ''cf-connecting-ip'')"
    by code_simp
  have t2: "\<not> truthy (header (proxied ''/wp-admin'') ''cf-connecting-ip'')"
    "truthy (map_option (\<lambda>v. trim (first_field v))
       (header (proxied ''/wp-admin'') ''x-forwarded-for''))"
    by code_simp+
  have t3: "\<not> truthy (header (odd_proxy ''/wp-admin'') ''cf-connecting-ip'')"
    "\<not> truthy (map_option (\<lambda>v. trim (first_field v))
       (header (odd_proxy ''/wp-admin'') ''x-forwarded-for''))"
    "truthy (header (odd_proxy ''/wp-admin'') ''x-real-ip'')"
    by code_simp+
  have t4: "\<not> truthy (header (get ''/wp-admin'') ''cf-connecting-ip'')"
    "\<not> truthy (map_option (\<lambda>v. trim (first_field v))
       (header (get ''/wp-admin'') ''x-forwarded-for''))"
    "\<not> truthy (header (get ''/wp-admin'') ''x-real-ip'')"
    by code_simp+
  have v: "header (cloudflare ''/wp-admin'') ''cf-connecting-ip'' = Some ''198.51.100.7''"
    "map_option (\<lambda>v. trim (first_field v))
       (header (proxied ''/wp-admin'') ''x-forwarded-for'') = Some ''203.0.113.5''"
    "header (odd_proxy ''/wp-admin'') ''x-real-ip'' = Some ''10.9.9.9''"
    by code_simp+
  have p: "path (proxied ''/wp-admin'') = path (get ''/wp-admin'')"
    by (simp add: proxied_def get_def)
  have d: "fst (handler (honeypot no_options) (get ''/wp-admin'')) = Body None Status410"
    "fst (handler (honeypot (log_only False)) (proxied ''/wp-admin'')) = Body None Status410"
    "fst (handler (honeypot no_options) (proxied ''/api/admin'')) = Next"
    by (simp_all add: handler_result honeypot_def honeypot_with_simps effective_patterns_plain
        no_options_def log_only_def configured_status_def some_test_stateless
        builtins_stateless get_def proxied_def index_ts_blocks_1 index_ts_allows_1)
  have s: "blockStatus (honeypot no_options) = Status410"
    "blockStatus (honeypot (log_only False)) = Status410"
    "shouldLog (honeypot no_options)" "\<not> shouldLog (honeypot (log_only False))"
    by (simp_all add: honeypot_def honeypot_with_simps configured_status_def
        no_options_def log_only_def)
  have f: "http_method (proxied ''/wp-admin'') = ''POST''"
    "path (proxied ''/wp-admin'') = ''/wp-admin''"
    by (simp_all add: proxied_def)
  note a = logging_and_client_address [where cl = "honeypot no_options"
      and c = "proxied ''/wp-admin''" and c' = "get ''/wp-admin''" and options = no_options
      and builtins = ATTACK_PATTERNS and hdr = "header (proxied ''/wp-admin'')"]
  note b = logging_and_client_address [where cl = "honeypot (log_only False)"
      and c = "proxied ''/wp-admin''" and c' = "get ''/wp-admin''"
      and options = "log_only False" and b = False
      and builtins = ATTACK_PATTERNS and hdr = "header (cloudflare ''/wp-admin'')"]
  note c = logging_and_client_address [where cl = "honeypot no_options"
      and c = "proxied ''/api/admin''" and c' = "get ''/api/admin''" and options = no_options
      and builtins = ATTACK_PATTERNS and hdr = "header (odd_proxy ''/wp-admin'')"]
  note e = logging_and_client_address [where cl = "honeypot no_options"
      and c = "proxied ''/api/admin''" and c' = "get ''/api/admin''" and options = no_options
      and builtins = ATTACK_PATTERNS and hdr = "header (get ''/wp-admin'')"]
  have c1: "shouldLog (honeypot_with ATTACK_PATTERNS no_options)"
    using a l by blast
  have c2: "\<not> shouldLog (honeypot_with ATTACK_PATTERNS (log_only False))"
    using b l by blast
  have c3: "client_ip (header (cloudflare ''/wp-admin'')) = ''198.51.100.7''"
    using b t1 v(1) by (metis option.inject)
  have c4: "client_ip (header (proxied ''/wp-admin'')) = ''203.0.113.5''"
    using a t2 v(2) by (metis option.inject)
  have c5: "client_ip (header (odd_proxy ''/wp-admin'')) = ''10.9.9.9''"
    using c t3 v(3) by (metis option.inject)
  have c6: "client_ip (header (get ''/wp-admin'')) = ''unknown''"
    using e t4 by blast
  have c7: "fst (handler (honeypot no_options) (proxied ''/wp-admin'')) = Body None Status410"
    using a p d(1) by metis
  have c8: "fst (snd (handler (honeypot no_options) (proxied ''/wp-admin'')))
     = [Blocked ''203.0.113.5'' ''POST'' ''/wp-admin'']"
    using a c7 s c4 f by simp
  have c9: "fst (snd (handler (honeypot (log_only False)) (proxied ''/wp-admin''))) = []"
    using b s by simp
  have c10: "fst (snd (handler (honeypot no_options) (proxied ''/api/admin''))) = []"
    using c d(3) by simp
  show ?thesis
    using l t1 t2 t3 t4 p c1 c2 c3 c4 c5 c6 c7 c8 c9 c10 by blast
qed

section \<open>The decision\<close>

text \<open>
  C1, as amended. When no rule of the effective list carries the \<^verbatim>\<open>g\<close> or the \<^verbatim>\<open>y\<close> flag,
  the handler that collapses the slashes returns \<^verbatim>\<open>next()\<close> exactly when no effective
  signature matches the collapsed path, and the empty body with the configured status
  exactly when one does; the handler of \<^verbatim>\<open>src/index.ts\<close> does the same on a path that has
  no two slashes in a row. For every rule list, the loop over the rules ends at the first rule
  that answers true: the rules after it are not tested and stay as they are.
\<close>

theorem decision_by_match:
  "(list_all stateless (effective_patterns builtins options) \<longrightarrow>
      (fst (handler_part_003 (honeypot_with builtins options) c) = Next) =
        (\<not> matches_some (effective_patterns builtins options) (replace_slashes (path c))) \<and>
      (fst (handler_part_003 (honeypot_with builtins options) c) =
          Body None (configured_status options)) =
        matches_some (effective_patterns builtins options) (replace_slashes (path c))) \<and>
   (list_all stateless (effective_patterns builtins options) \<and> \<not> has_run (path c) \<longrightarrow>
      (fst (handler (honeypot_with builtins options) c) = Next) =
        (\<not> matches_some (effective_patterns builtins options) (replace_slashes (path c))) \<and>
      (fst (handler (honeypot_with builtins options) c) =
          Body None (configured_status options)) =
        matches_some (effective_patterns builtins options) (replace_slashes (path c))) \<and>
   (fst (some_test ps s) = False \<and> fst (RegExp_test p s) = True \<longrightarrow>
      some_test (ps @ p # qs) s =
        (True, snd (some_test ps s) @ snd (RegExp_test p s) # qs))"
proof (intro conjI impI)
  assume "fst (some_test ps s) = False \<and> fst (RegExp_test p s) = True"
  then have "some_test ps s = (False, snd (some_test ps s))"
    and "RegExp_test p s = (True, snd (RegExp_test p s))"
    by (simp_all add: prod_eq_iff)
  then show "some_test (ps @ p # qs) s =
      (True, snd (some_test ps s) @ snd (RegExp_test p s) # qs)"
    by (rule some_test_first)
qed (simp_all add: handler_part_003_result handler_result honeypot_with_simps
    some_test_stateless replace_slashes_fixed)

text \<open>
  C1, as the claim states it, fails for a rule with the \<^verbatim>\<open>g\<close> flag. With the addition
  \<^verbatim>\<open>/^\/secret/g\<close> the effective list has a signature that matches \<^verbatim>\<open>/secret\<close>; the first
  request for \<^verbatim>\<open>/secret\<close> is blocked and leaves the \<^verbatim>\<open>lastIndex\<close> of the rule at 7, and
  the second request for \<^verbatim>\<open>/secret\<close> passes.
\<close>

theorem global_flag_counterexample:
  "secret_g \<in> set (effective_patterns ATTACK_PATTERNS_part_003 (patterns_only [secret_g])) \<and>
   RegExp_matches secret_g (replace_slashes (path (get ''/secret''))) \<and>
   map fst (serve handler_part_003 (honeypot_part_003 (patterns_only [secret_g]))
     [get ''/secret'', get ''/secret'']) = [Body None Status410, Next]"
proof -
  have "secret_g \<in> set (effective_patterns ATTACK_PATTERNS_part_003 (patterns_only [secret_g]))"
    by (simp add: effective_patterns_filter exclusions_def additions_def patterns_only_def
        excluded_def)
  moreover have "RegExp_matches secret_g (replace_slashes (path (get ''/secret'')))"
    by code_simp
  moreover have "map fst (serve handler_part_003
      (honeypot_part_003 (patterns_only [secret_g]))
      [get ''/secret'', get ''/secret'']) = [Body None Status410, Next]"
    by code_simp
  ultimately show ?thesis by simp
qed

text \<open>
  With the addition \<^verbatim>\<open>/^\/secret/i\<close> the handler of \<^verbatim>\<open>part_003\<close> blocks \<^verbatim>\<open>//secret\<close>; with
  no options the handler of \<^verbatim>\<open>src/index.ts\<close> lets \<^verbatim>\<open>/api/admin\<close> pass; and in the list
  \<^verbatim>\<open>/^\/blog$/i\<close>, \<^verbatim>\<open>/^\/secret/g\<close>, \<^verbatim>\<open>/^\/secret/y\<close> the loop on \<^verbatim>\<open>/secret\<close> ends at the
  second rule, whose \<^verbatim>\<open>lastIndex\<close> becomes 7, and leaves the third at 0.
\<close>

theorem decision_by_match_witness:
  "list_all stateless (effective_patterns ATTACK_PATTERNS_part_003 (patterns_only [secret_i])) \<and>
   matches_some (effective_patterns ATTACK_PATTERNS_part_003 (patterns_only [secret_i]))
     (replace_slashes (path (get ''//secret''))) \<and>
   fst (handler_part_003 (honeypot_with ATTACK_PATTERNS_part_003 (patterns_only [secret_i]))
     (get ''//secret'')) = Body None Status410 \<and>
   list_all stateless (effective_patterns ATTACK_PATTERNS no_options) \<and>
   \<not> has_run (path (get ''/api/admin'')) \<and>
   \<not> matches_some (effective_patterns ATTACK_PATTERNS no_options)
     (replace_slashes (path (get ''/api/admin''))) \<and>
   fst (handler (honeypot_with ATTACK_PATTERNS no_options) (get ''/api/admin'')) = Next \<and>
   fst (some_test [blog_i] ''/secret'') = False \<and>
   fst (RegExp_test secret_g ''/secret'') = True \<and>
   some_test ([blog_i] @ secret_g # [secret_y]) ''/secret'' =
     (True, snd (some_test [blog_i] ''/secret'') @ snd (RegExp_test secret_g ''/secret'')
        # [secret_y]) \<and>
   lastIndex (snd (RegExp_test secret_g ''/secret'')) = 7 \<and>
   lastIndex secret_y = 0 \<and>
   lastIndex (snd (RegExp_test secret_y ''/secret'')) = 7"
proof -
  have h1: "list_all stateless
      (effective_patterns ATTACK_PATTERNS_part_003 (patterns_only [secret_i]))"
    by code_simp
  have h2: "matches_some (effective_patterns ATTACK_PATTERNS_part_003 (patterns_only [secret_i]))
      (replace_slashes (path (get ''//secret'')))"
    by code_simp
  have h3: "list_all stateless (effective_patterns ATTACK_PATTERNS no_options)"
    by (simp add: effective_patterns_plain no_options_def builtins_stateless)
  have h4: "\<not> has_run (path (get ''/api/admin''))"
    by (simp add: get_def)
  have h5: "\<not> matches_some (effective_patterns ATTACK_PATTERNS no_options)
      (replace_slashes (path (get ''/api/admin'')))"
    by (simp add: effective_patterns_plain no_options_def get_def index_ts_allows_1)
  have h6: "fst (some_test [blog_i] ''/secret'') = False"
    by code_simp
  have h7: "fst (RegExp_test secret_g ''/secret'') = True"
    by code_simp
  have h8: "lastIndex (snd (RegExp_test secret_g ''/secret'')) = 7"
    "lastIndex secret_y = 0"
    "lastIndex (snd (RegExp_test secret_y ''/secret'')) = 7"
    by code_simp+
  have st: "configured_status (patterns_only [secret_i]) = Status410"
    "configured_status no_options = Status410"
    by (simp_all add: configured_status_def patterns_only_def no_options_def)
  note a = decision_by_match [where builtins = ATTACK_PATTERNS_part_003
      and options = "patterns_only [secret_i]" and c = "get ''//secret''"
      and ps = "[blog_i]" and p = secret_g and qs = "[secret_y]" and s = "''/secret''"]
  note b = decision_by_match [where builtins = ATTACK_PATTERNS
      and options = no_options and c = "get ''/api/admin''"
      and ps = "[blog_i]" and p = secret_g and qs = "[secret_y]" and s = "''/secret''"]
  have c1: "fst (handler_part_003
      (honeypot_with ATTACK_PATTERNS_part_003 (patterns_only [secret_i]))
      (get ''//secret'')) = Body None Status410"
    using a h1 h2 st by metis
  have c2: "fst (handler (honeypot_with ATTACK_PATTERNS no_options) (get ''/api/admin'')) = Next"
    using b h3 h4 h5 by metis
  have c3: "some_test ([blog_i] @ secret_g # [secret_y]) ''/secret'' =
     (True, snd (some_test [blog_i] ''/secret'') @ snd (RegExp_test secret_g ''/secret'')
        # [secret_y])"
    using a h6 h7 by blast
  show ?thesis
    using h1 h2 h3 h4 h5 h6 h7 h8 c1 c2 c3 by blast
qed

text \<open>
  C8, as amended. When no rule of the effective list carries the \<^verbatim>\<open>g\<close> or the \<^verbatim>\<open>y\<close> flag
  (the built-in rules carry neither), every answer of a middleware, whatever it served
  before, is a function of the options and of the path of the request alone: requests with
  the same path get the same decision and the same status.
\<close>

theorem decisions_repeat:
  "(list_all stateless (effective_patterns builtins options) \<longrightarrow>
      map fst (serve handler (honeypot_with builtins options) cs) =
        map (\<lambda>c. if matches_some (effective_patterns builtins options) (path c)
                 then Body None (configured_status options) else Next) cs \<and>
      map fst (serve handler_part_003 (honeypot_with builtins options) cs) =
        map (\<lambda>c. if matches_some (effective_patterns builtins options)
                      (replace_slashes (path c))
                 then Body None (configured_status options) else Next) cs) \<and>
   list_all stateless ATTACK_PATTERNS \<and>
   list_all stateless ATTACK_PATTERNS_part_002 \<and>
   list_all stateless ATTACK_PATTERNS_part_003"
  using serve_stateless [of "honeypot_with builtins options" cs]
  by (simp add: honeypot_with_simps builtins_stateless)

text \<open>
  C8, as the claim states it, fails for a rule with the \<^verbatim>\<open>y\<close> flag: with the addition
  \<^verbatim>\<open>/^\/secret/y\<close>, two requests for \<^verbatim>\<open>/secret\<close> with the same headers get different
  decisions from the same middleware.
\<close>

theorem sticky_flag_counterexample:
  "map fst (serve handler (honeypot (patterns_only [secret_y]))
     [get ''/secret'', get ''/secret'']) = [Body None Status410, Next]"
  by code_simp

text \<open>
  With no options, \<^verbatim>\<open>/blog\<close> is blocked before and after another request, with and without
  proxy headers.
\<close>

theorem decisions_repeat_witness:
  "list_all stateless (effective_patterns ATTACK_PATTERNS no_options) \<and>
   path (get ''/blog'') = path (proxied ''/blog'') \<and>
   map fst (serve handler (honeypot_with ATTACK_PATTERNS no_options)
     [get ''/blog'', proxied ''/api/admin'', proxied ''/blog''])
   = [Body None Status410, Next, Body None Status410]"
proof -
  have h: "list_all stateless (effective_patterns ATTACK_PATTERNS no_options)"
    by (simp add: effective_patterns_plain no_options_def builtins_stateless)
  have e: "effective_patterns ATTACK_PATTERNS no_options = ATTACK_PATTERNS"
    by (simp add: effective_patterns_plain no_options_def)
  have st: "configured_status no_options = Status410"
    by (simp add: configured_status_def no_options_def)
  show ?thesis
    using decisions_repeat [where builtins = ATTACK_PATTERNS and options = no_options
        and cs = "[get ''/blog'', proxied ''/api/admin'', proxied ''/blog'']"] h
    by (simp add: e st get_def proxied_def index_ts_blocks_1 index_ts_allows_1)
qed

section \<open>The regression set\<close>

text \<open>
  C6. With no options, \<^verbatim>\<open>/admin\<close> is blocked and \<^verbatim>\<open>/api/admin\<close> passes, \<^verbatim>\<open>/blog\<close> is blocked
  and \<^verbatim>\<open>/blogs\<close> passes, \<^verbatim>\<open>/wp-admin\<close> and \<^verbatim>\<open>/foo/wp-admin/index.php\<close> are blocked,
  \<^verbatim>\<open>/2017\<close> and \<^verbatim>\<open>/2024\<close> are blocked and \<^verbatim>\<open>/abcd\<close> and \<^verbatim>\<open>/12345\<close> pass: under the table
  and handler of \<^verbatim>\<open>src/index.ts\<close>, of \<^verbatim>\<open>part_002\<close> and of \<^verbatim>\<open>part_003\<close>. The year-folder
  signature, the last entry of each table, matches a slash followed by four digits and
  nothing else.
\<close>

theorem regression_set:
  "fst (handler (honeypot no_options) (get ''/admin'')) = Body None Status410 \<and>
   fst (handler (honeypot no_options) (get ''/api/admin'')) = Next \<and>
   fst (handler (honeypot no_options) (get ''/blog'')) = Body None Status410 \<and>
   fst (handler (honeypot no_options) (get ''/blogs'')) = Next \<and>
   fst (handler (honeypot no_options) (get ''/wp-admin'')) = Body None Status410 \<and>
   fst (handler (honeypot no_options) (get ''/foo/wp-admin/index.php'')) = Body None Status410 \<and>
   fst (handler (honeypot no_options) (get ''/2017'')) = Body None Status410 \<and>
   fst (handler (honeypot no_options) (get ''/2024'')) = Body None Status410 \<and>
   fst (handler (honeypot no_options) (get ''/abcd'')) = Next \<and>
   fst (handler (honeypot no_options) (get ''/12345'')) = Next \<and>
   fst (handler (honeypot_part_002 no_options) (get ''/admin'')) = Body None Status410 \<and>
   fst (handler (honeypot_part_002 no_options) (get ''/api/admin'')) = Next \<and>
   fst (handler (honeypot_part_002 no_options) (get ''/blog'')) = Body None Status410 \<and>
   fst (handler (honeypot_part_002 no_options) (get ''/blogs'')) = Next \<and>
   fst (handler (honeypot_part_002 no_options) (get ''/wp-admin'')) = Body None Status410 \<and>
   fst (handler (honeypot_part_002 no_options) (get ''/foo/wp-admin/index.php''))
     = Body None Status410 \<and>
   fst (handler (honeypot_part_002 no_options) (get ''/2017'')) = Body None Status410 \<and>
   fst (handler (honeypot_part_002 no_options) (get ''/2024'')) = Body None Status410 \<and>
   fst (handler (honeypot_part_002 no_options) (get ''/abcd'')) = Next \<and>
   fst (handler (honeypot_part_002 no_options) (get ''/12345'')) = Next \<and>
   fst (handler_part_003 (honeypot_part_003 no_options) (get ''/admin''))
     = Body None Status410 \<and>
   fst (handler_part_003 (honeypot_part_003 no_options) (get ''/api/admin'')) = Next \<and>
   fst (handler_part_003 (honeypot_part_003 no_options) (get ''/blog''))
     = Body None Status410 \<and>
   fst (handler_part_003 (honeypot_part_003 no_options) (get ''/blogs'')) = Next \<and>
   fst (handler_part_003 (honeypot_part_003 no_options) (get ''/wp-admin''))
     = Body None Status410 \<and>
   fst (handler_part_003 (honeypot_part_003 no_options) (get ''/foo/wp-admin/index.php''))
     = Body None Status410 \<and>
   fst (handler_part_003 (honeypot_part_003 no_options) (get ''/2017''))
     = Body None Status410 \<and>
   fst (handler_part_003 (honeypot_part_003 no_options) (get ''/2024''))
     = Body None Status410 \<and>
   fst (handler_part_003 (honeypot_part_003 no_options) (get ''/abcd'')) = Next \<and>
   fst (handler_part_003 (honeypot_part_003 no_options) (get ''/12345'')) = Next \<and>
   last ATTACK_PATTERNS = year_folder \<and>
   last ATTACK_PATTERNS_part_002 = year_folder \<and>
   last ATTACK_PATTERNS_part_003 = year_folder \<and>
   RegExp_matches year_folder s =
     (\<exists>a b c d. s = [CHR ''/'', a, b, c, d] \<and> is_digit a \<and> is_digit b
        \<and> is_digit c \<and> is_digit d)"
proof -
  have "RegExp_matches year_folder s =
     (\<exists>a b c d. s = [CHR ''/'', a, b, c, d] \<and> is_digit a \<and> is_digit b
        \<and> is_digit c \<and> is_digit d)"
    by (rule year_folder_matches)
  then show ?thesis
    by (simp only: default_decision get_def Request.simps replace_slashes_examples
        index_ts_blocks_1 index_ts_blocks_2 index_ts_allows_1 index_ts_allows_2
        part_002_blocks_1 part_002_blocks_2 part_002_allows_1 part_002_allows_2
        part_003_blocks_1 part_003_blocks_2 part_003_allows_1 part_003_allows_2
        year_folder_last if_True if_False simp_thms)
qed

text \<open>
  C2. The handler of \<^verbatim>\<open>src/index.ts\<close> tests the path as it comes: \<^verbatim>\<open>//blog\<close> and
  \<^verbatim>\<open>///admin\<close> pass, where \<^verbatim>\<open>/blog\<close> and \<^verbatim>\<open>/admin\<close> are blocked; so does the handler of
  \<^verbatim>\<open>part_002\<close>.
\<close>

theorem double_slash_passes:
  "fst (handler (honeypot no_options) (get ''//blog'')) = Next \<and>
   fst (handler (honeypot no_options) (get ''/blog'')) = Body None Status410 \<and>
   fst (handler (honeypot no_options) (get ''///admin'')) = Next \<and>
   fst (handler (honeypot no_options) (get ''/admin'')) = Body None Status410 \<and>
   fst (handler (honeypot_part_002 no_options) (get ''//blog'')) = Next \<and>
   fst (handler (honeypot_part_002 no_options) (get ''/blog'')) = Body None Status410 \<and>
   fst (handler (honeypot_part_002 no_options) (get ''///admin'')) = Next \<and>
   fst (handler (honeypot_part_002 no_options) (get ''/admin'')) = Body None Status410"
  by (simp add: default_decision get_def index_ts_blocks_1 index_ts_allows_3
      part_002_blocks_1 part_002_allows_3)

text \<open>
  The handler of \<^verbatim>\<open>part_003\<close> decides on the collapsed path, which has no two slashes in a
  row, so the same four requests are all blocked there.
\<close>

lemma handler_part_003_collapses:
  "fst (handler_part_003 cl c) = fst (handler cl (c\<lparr>path := replace_slashes (path c)\<rparr>))"
  "\<not> has_run (replace_slashes (path c))"
  by (simp_all add: handler_part_003_result handler_result replace_slashes_no_run)

lemma double_slash_blocked_part_003:
  "fst (handler_part_003 (honeypot_part_003 no_options) (get ''//blog''))
     = Body None Status410 \<and>
   fst (handler_part_003 (honeypot_part_003 no_options) (get ''///admin''))
     = Body None Status410"
  by (simp add: default_decision get_def replace_slashes_examples part_003_blocks_1)

section \<open>Letter case\<close>





























end
